theory Spec2Isabelle
  imports Main "HOL-Library.Sublist" "HOL-Library.AList"
begin

section \<open>Data model (types.ts, as used by InteropService.ts)\<close>

text \<open>
  The three enumerations of \<^verbatim>\<open>./types\<close>. Their members are non-empty strings in
  the source, so every member is truthy; an absent (\<^verbatim>\<open>null\<close> or
  \<^verbatim>\<open>undefined\<close>) argument is \<open>None\<close>.
\<close>

datatype ModuleType = Importer | Exporter

datatype FileSystemItem = File | Directory

datatype ImportModuleOutputFormat = Markdown | Html

text \<open>
  A module descriptor. \<open>m_fileExtensions\<close> is optional because the source guards it
  (\<^verbatim>\<open>m.fileExtensions && ...\<close>); \<open>m_target\<close> is only set on exporters,
  \<open>m_sources\<close> only on importers; \<open>m_importerClass\<close> is falsy when empty;
  \<open>m_instanceFactory\<close> holds the name of a custom factory when there is one.
\<close>

record Module =
  m_type :: ModuleType
  m_format :: string
  m_fileExtensions :: "string list option"
  m_sources :: "FileSystemItem list"
  m_target :: "FileSystemItem option"
  m_description :: string
  m_isNoteArchive :: bool
  m_canDoMultiExport :: bool
  m_importerClass :: string
  m_outputFormat :: "ImportModuleOutputFormat option"
  m_isDefault :: bool
  m_instanceFactory :: "string option"

text \<open>
  Modelled from the spec: \<^verbatim>\<open>defaultImportExportModule\<close> (\<^verbatim>\<open>./types\<close> is
  not under src/). The spec gives a descriptor the fields above, with
  \<open>outputFormat\<close> defaulting to the Markdown-like member and every other field empty
  or false until the caller supplies it.
\<close>

definition defaultImportExportModule :: "ModuleType \<Rightarrow> Module" where
  "defaultImportExportModule ty =
     \<lparr> m_type = ty, m_format = [], m_fileExtensions = Some [], m_sources = [],
       m_target = None, m_description = [], m_isNoteArchive = True,
       m_canDoMultiExport = False, m_importerClass = [],
       m_outputFormat = Some Markdown, m_isDefault = False, m_instanceFactory = None \<rparr>"

subsection \<open>The registry: \<^verbatim>\<open>modules()\<close>\<close>

definition importModules :: "Module list" where
  "importModules =
     [ (defaultImportExportModule Importer)
         \<lparr> m_format := ''jex'', m_fileExtensions := Some [''jex''], m_sources := [File],
           m_description := ''Joplin Export File'' \<rparr>,
       (defaultImportExportModule Importer)
         \<lparr> m_format := ''md'', m_fileExtensions := Some [''md'', ''markdown'', ''txt''],
           m_sources := [File, Directory], m_isNoteArchive := False,
           m_description := ''Markdown'' \<rparr>,
       (defaultImportExportModule Importer)
         \<lparr> m_format := ''raw'', m_sources := [Directory],
           m_description := ''Joplin Export Directory'' \<rparr>,
       (defaultImportExportModule Importer)
         \<lparr> m_format := ''enex'', m_fileExtensions := Some [''enex''], m_sources := [File],
           m_description := ''Evernote Export File (as Markdown)'',
           m_importerClass := ''InteropService_Importer_EnexToMd'', m_isDefault := True \<rparr>,
       (defaultImportExportModule Importer)
         \<lparr> m_format := ''enex'', m_fileExtensions := Some [''enex''], m_sources := [File],
           m_description := ''Evernote Export File (as HTML)'',
           m_importerClass := ''InteropService_Importer_EnexToHtml'',
           m_outputFormat := Some Html \<rparr> ]"

definition exportModules :: "Module list" where
  "exportModules =
     [ (defaultImportExportModule Exporter)
         \<lparr> m_format := ''jex'', m_fileExtensions := Some [''jex''], m_target := Some File,
           m_canDoMultiExport := True, m_description := ''Joplin Export File'' \<rparr>,
       (defaultImportExportModule Exporter)
         \<lparr> m_format := ''raw'', m_target := Some Directory,
           m_description := ''Joplin Export Directory'' \<rparr>,
       (defaultImportExportModule Exporter)
         \<lparr> m_format := ''md'', m_target := Some Directory, m_description := ''Markdown'' \<rparr>,
       (defaultImportExportModule Exporter)
         \<lparr> m_format := ''html'', m_fileExtensions := Some [''html'', ''htm''],
           m_target := Some File, m_canDoMultiExport := False,
           m_description := ''HTML File'' \<rparr>,
       (defaultImportExportModule Exporter)
         \<lparr> m_format := ''html'', m_target := Some Directory,
           m_description := ''HTML Directory'' \<rparr> ]"

text \<open>
  \<^verbatim>\<open>modules()\<close>: the built-in descriptors followed by the registered ones
  (\<^verbatim>\<open>userModules_\<close>). The lookups below take the list that \<^verbatim>\<open>this.modules()\<close>
  returns as their first argument.
\<close>

definition modules :: "Module list \<Rightarrow> Module list" where
  "modules userModules = (importModules @ exportModules) @ userModules"

subsection \<open>\<^verbatim>\<open>findModuleByFormat_\<close>\<close>

text \<open>
  The loop of lines 149-160, with \<open>matches\<close> as accumulator. \<open>fmt\<close> is an option
  because \<^verbatim>\<open>newModuleFromPath_\<close> passes \<^verbatim>\<open>options.format\<close>, which may be
  undefined and then equals no descriptor's format.
\<close>

fun findModuleByFormat_loop ::
  "Module list \<Rightarrow> ModuleType \<Rightarrow> string option \<Rightarrow> FileSystemItem option \<Rightarrow>
   ImportModuleOutputFormat option \<Rightarrow> Module list \<Rightarrow> Module list" where
  "findModuleByFormat_loop [] ty fmt target outputFormat matches = matches"
| "findModuleByFormat_loop (m # ms) ty fmt target outputFormat matches =
     (if Some (m_format m) = fmt \<and> m_type m = ty then
        (if target = None \<and> outputFormat = None then
           findModuleByFormat_loop ms ty fmt target outputFormat (matches @ [m])
         else if target \<noteq> None \<and> target = m_target m then
           findModuleByFormat_loop ms ty fmt target outputFormat (matches @ [m])
         else if outputFormat \<noteq> None \<and> outputFormat = m_outputFormat m then
           findModuleByFormat_loop ms ty fmt target outputFormat (matches @ [m])
         else findModuleByFormat_loop ms ty fmt target outputFormat matches)
      else findModuleByFormat_loop ms ty fmt target outputFormat matches)"

definition findModuleByFormat ::
  "Module list \<Rightarrow> ModuleType \<Rightarrow> string option \<Rightarrow> FileSystemItem option \<Rightarrow>
   ImportModuleOutputFormat option \<Rightarrow> Module option" where
  "findModuleByFormat mods ty fmt target outputFormat =
     (let matches = findModuleByFormat_loop mods ty fmt target outputFormat [] in
      case find m_isDefault matches of
        Some output \<Rightarrow> Some output
      | None \<Rightarrow> (case matches of [] \<Rightarrow> None | m # _ \<Rightarrow> Some m))"

subsection \<open>\<^verbatim>\<open>moduleByFileExtension_\<close>\<close>

text \<open>
  \<^verbatim>\<open>String.prototype.toLowerCase\<close>. On a string of ASCII characters it turns the
  letters A to Z into a to z and leaves every other character. On a string with a
  character beyond ASCII it applies the runtime's Unicode case mapping, which is a
  parameter here (\<open>unicode\<close>; the pipelines take it from the store below).
\<close>

definition toLowerCase_char :: "char \<Rightarrow> char" where
  "toLowerCase_char c =
     (let n = (of_char c :: nat) in if 65 \<le> n \<and> n \<le> 90 then char_of (n + 32) else c)"

definition is_ascii :: "char \<Rightarrow> bool" where
  "is_ascii c = ((of_char c :: nat) < 128)"

definition toLowerCase :: "(string \<Rightarrow> string) \<Rightarrow> string \<Rightarrow> string" where
  "toLowerCase unicode s = (if list_all is_ascii s then map toLowerCase_char s else unicode s)"

fun moduleByFileExtension_loop :: "Module list \<Rightarrow> ModuleType \<Rightarrow> string \<Rightarrow> Module option" where
  "moduleByFileExtension_loop [] ty ext = None"
| "moduleByFileExtension_loop (m # ms) ty ext =
     (if ty \<noteq> m_type m then moduleByFileExtension_loop ms ty ext
      else if (case m_fileExtensions m of None \<Rightarrow> False | Some es \<Rightarrow> ext \<in> set es)
      then Some m
      else moduleByFileExtension_loop ms ty ext)"

definition moduleByFileExtension ::
  "(string \<Rightarrow> string) \<Rightarrow> Module list \<Rightarrow> ModuleType \<Rightarrow> string \<Rightarrow> Module option" where
  "moduleByFileExtension unicode mods ty ext =
     moduleByFileExtension_loop mods ty (toLowerCase unicode ext)"

section \<open>Items, options and errors\<close>

text \<open>
  A stored item, with the fields \<^verbatim>\<open>export\<close> reads. The two encryption flags
  and the title are tested for truthiness only; an absent title is the empty string.
\<close>

record item =
  item_id :: string
  item_title :: string
  item_body :: string
  encryption_applied :: bool
  encryption_blob_encrypted :: bool

text \<open>
  \<^verbatim>\<open>ImportOptions\<close> and \<^verbatim>\<open>ExportOptions\<close> in one record, since
  \<^verbatim>\<open>newModuleFromPath_\<close> takes either. \<open>o_path\<close>, \<open>o_modulePath\<close> and
  \<open>o_destinationFolderId\<close> are tested for truthiness only: the empty string stands
  for an absent one. The two id lists are empty when absent (the source replaces an
  absent list by \<^verbatim>\<open>[]\<close>). \<open>o_format\<close> is \<open>None\<close> when the caller gave none.
\<close>

record options =
  o_path :: string
  o_format :: "string option"
  o_modulePath :: string
  o_target :: "FileSystemItem option"
  o_outputFormat :: "ImportModuleOutputFormat option"
  o_sourceFolderIds :: "string list"
  o_sourceNoteIds :: "string list"
  o_destinationFolderId :: string
  o_destinationFolder :: "item option"

text \<open>
  The errors a run can end with. The first four are the \<^verbatim>\<open>new Error(_(...))\<close> of
  the source, named by their message template and carrying its arguments (the
  translation of the template is the locale's business). \<open>TypeError\<close> is what the
  runtime throws on reading a property of \<^verbatim>\<open>null\<close> or \<^verbatim>\<open>undefined\<close>.
  \<open>Thrown msg\<close> is an error thrown by a collaborator (a converter, the class loader),
  with its message.
\<close>

datatype error =
    Cannot_find string
  | Please_specify_import_format string
  | Cannot_load_module_output ModuleType "string option" ImportModuleOutputFormat
  | Cannot_load_module_target ModuleType "string option" "FileSystemItem option"
  | TypeError string
  | Thrown string

section \<open>The module resolver\<close>

text \<open>
  Modelled from the spec: \<^verbatim>\<open>toTitleCase\<close> (\<^verbatim>\<open>lib/string-utils\<close> is not under
  src/). The spec derives the implementation name from the "title-cased format": the
  first letter in upper case.
\<close>

definition toUpperCase_char :: "char \<Rightarrow> char" where
  "toUpperCase_char c =
     (let n = (of_char c :: nat) in if 97 \<le> n \<and> n \<le> 122 then char_of (n - 32) else c)"

definition toTitleCase :: "string \<Rightarrow> string" where
  "toTitleCase s = (case s of [] \<Rightarrow> [] | c # cs \<Rightarrow> toUpperCase_char c # cs)"

definition modulePath :: "Module \<Rightarrow> string" where
  "modulePath m =
     (let className =
        (if m_type m = Importer then
           (if m_importerClass m \<noteq> [] then m_importerClass m
            else ''InteropService_Importer_'' @ toTitleCase (m_format m))
         else ''InteropService_Exporter_'' @ toTitleCase (m_format m))
      in ''lib/services/interop/'' @ className)"

text \<open>
  What a resolver call builds: the generic adapter around the handle of a custom
  factory, or an object of the class loaded from a module path; and the argument its
  \<^verbatim>\<open>setMetadata\<close> receives (the descriptor, and for \<^verbatim>\<open>newModuleFromPath_\<close>
  the call's options under the key \<^verbatim>\<open>options\<close>).
\<close>

datatype construction =
    InteropService_Importer_Custom string
  | InteropService_Exporter_Custom string
  | ModuleClass string

record metadata =
  md_options :: "options option"
  md_module :: Module

record converter =
  c_construction :: construction
  c_metadata :: metadata

definition newModuleFromCustomFactory :: "Module \<Rightarrow> string \<Rightarrow> construction" where
  "newModuleFromCustomFactory m instanceFactory =
     (if m_type m = Importer then InteropService_Importer_Custom instanceFactory
      else InteropService_Exporter_Custom instanceFactory)"

definition newModuleByFormat ::
  "Module list \<Rightarrow> ModuleType \<Rightarrow> string option \<Rightarrow> ImportModuleOutputFormat option \<Rightarrow>
   error + converter" where
  "newModuleByFormat mods ty fmt outputFormat0 =
     (let outputFormat = (case outputFormat0 of None \<Rightarrow> Markdown | Some f \<Rightarrow> f) in
      case findModuleByFormat mods ty fmt None (Some outputFormat) of
        None \<Rightarrow> Inl (Cannot_load_module_output ty fmt outputFormat)
      | Some moduleMetadata \<Rightarrow>
          Inr \<lparr> c_construction =
                  (case m_instanceFactory moduleMetadata of
                     Some f \<Rightarrow> newModuleFromCustomFactory moduleMetadata f
                   | None \<Rightarrow> ModuleClass (modulePath moduleMetadata)),
                c_metadata = \<lparr> md_options = None, md_module = moduleMetadata \<rparr> \<rparr>)"

text \<open>
  \<^verbatim>\<open>newModuleFromPath_\<close>, lines 219-242. \<open>opts\<close> is \<open>None\<close> for a null
  \<^verbatim>\<open>options\<close>: line 220 guards it, line 223 does not. The first \<open>case\<close> is
  lines 220-226 (the path override, or the computed path of the descriptor found);
  the second is the unguarded lookup of line 228 and its dereference on line 232.
\<close>

definition newModuleFromPath :: "Module list \<Rightarrow> ModuleType \<Rightarrow> options option \<Rightarrow> error + converter" where
  "newModuleFromPath mods ty opts =
     (let modulePath0 = (case opts of None \<Rightarrow> [] | Some os \<Rightarrow> o_modulePath os) in
      case (if modulePath0 = [] then
              (case opts of
                 None \<Rightarrow> Inl (TypeError ''options is null'')
               | Some os \<Rightarrow>
                   (case findModuleByFormat mods ty (o_format os) (o_target os) None of
                      None \<Rightarrow> Inl (Cannot_load_module_target ty (o_format os) (o_target os))
                    | Some moduleMetadata \<Rightarrow> Inr (modulePath moduleMetadata)))
            else Inr modulePath0) of
        Inl e \<Rightarrow> Inl e
      | Inr modulePath1 \<Rightarrow>
          (case opts of
             None \<Rightarrow> Inl (TypeError ''options is null'')
           | Some os \<Rightarrow>
               (case findModuleByFormat mods ty (o_format os) (o_target os) None of
                  None \<Rightarrow> Inl (TypeError ''moduleMetadata is null'')
                | Some moduleMetadata \<Rightarrow>
                    Inr \<lparr> c_construction =
                            (case m_instanceFactory moduleMetadata of
                               Some f \<Rightarrow> newModuleFromCustomFactory moduleMetadata f
                             | None \<Rightarrow> ModuleClass modulePath1),
                          c_metadata = \<lparr> md_options = Some os, md_module = moduleMetadata \<rparr> \<rparr>)))"

section \<open>The export pipeline\<close>

subsection \<open>Store, queue and converter\<close>

text \<open>
  The five item types \<^verbatim>\<open>export\<close> handles (\<^verbatim>\<open>BaseModel.TYPE_*\<close>), and a queue
  entry \<^verbatim>\<open>{ type, itemOrId }\<close>: \<open>Obj\<close> is the case
  \<^verbatim>\<open>typeof itemOrId === 'object'\<close>, \<open>Id\<close> a bare id.
\<close>

datatype ItemType = TYPE_FOLDER | TYPE_RESOURCE | TYPE_NOTE | TYPE_TAG | TYPE_NOTE_TAG

datatype itemOrId = Id string | Obj item

record queue_entry =
  entry_type :: ItemType
  entry_itemOrId :: itemOrId

record NoteTag =
  nt_id :: string
  nt_note_id :: string
  nt_tag_id :: string

text \<open>
  The collaborators outside InteropService.ts that the two pipelines call, as
  parameters: the item store (\<^verbatim>\<open>Folder\<close>, \<^verbatim>\<open>Note\<close>, \<^verbatim>\<open>NoteTag\<close>,
  \<^verbatim>\<open>Resource\<close>, \<^verbatim>\<open>BaseItem\<close>, \<^verbatim>\<open>BaseModel\<close>), the file-system driver,
  \<^verbatim>\<open>fileExtension\<close>, \<^verbatim>\<open>JSON.stringify\<close> and the Unicode case mapping of
  \<^verbatim>\<open>toLowerCase\<close>. A load that finds nothing returns \<open>None\<close>. The second argument of \<open>Folder_childrenIds\<close> is the optional
  \<^verbatim>\<open>recursive\<close> flag. The store's calls are taken to return.
\<close>

record store =
  Folder_childrenIds :: "string \<Rightarrow> bool option \<Rightarrow> string list"
  Folder_noteIds :: "string \<Rightarrow> string list"
  Folder_load :: "string \<Rightarrow> item option"
  Note_load :: "string \<Rightarrow> item option"
  Note_linkedResourceIds :: "string \<Rightarrow> string list"
  NoteTag_all :: "NoteTag list"
  ItemClass_load :: "ItemType \<Rightarrow> string \<Rightarrow> item option"
  ItemClass_tableName :: "ItemType \<Rightarrow> string"
  modelTypeToName :: "ItemType \<Rightarrow> string"
  Resource_fullPath :: "item \<Rightarrow> string"
  JSON_stringify :: "string \<Rightarrow> string"
  fsDriver_exists :: "string \<Rightarrow> bool"
  fileExtension :: "string \<Rightarrow> string"
  String_toLowerCase :: "string \<Rightarrow> string"

record ImportExportResult =
  warnings :: "string list"

text \<open>
  An exporter is an object with state \<open>'s\<close>; each method returns the message of the
  error it throws, if it throws, and the object's next state. The pipeline hands it the
  queue and the export context by value.
\<close>

record 's exporter =
  e_init :: "string option \<Rightarrow> options \<Rightarrow> 's \<Rightarrow> string option \<times> 's"
  e_prepareForProcessingItemType :: "ItemType \<Rightarrow> queue_entry list \<Rightarrow> 's \<Rightarrow> string option \<times> 's"
  e_updateContext :: "(string \<times> string) list \<Rightarrow> 's \<Rightarrow> string option \<times> 's"
  e_processResource :: "item \<Rightarrow> string \<Rightarrow> 's \<Rightarrow> string option \<times> 's"
  e_processItem :: "ItemType \<Rightarrow> item \<Rightarrow> 's \<Rightarrow> string option \<times> 's"
  e_close :: "'s \<Rightarrow> string option \<times> 's"

text \<open>
  The calls \<^verbatim>\<open>export\<close> makes on the exporter, recorded in order with what each
  one threw.
\<close>

datatype exporter_call =
    Init "string option" options
  | PrepareForProcessingItemType ItemType "queue_entry list"
  | UpdateContext "(string \<times> string) list"
  | ProcessResource item string
  | ProcessItem ItemType item
  | Close

text \<open>
  The state of a run from line 372 on: the exporter, the record of the calls made on
  it, \<^verbatim>\<open>result.warnings\<close> and \<^verbatim>\<open>context.resourcePaths\<close>.
\<close>

record 's run =
  r_exporter :: 's
  r_calls :: "(exporter_call \<times> string option) list"
  r_warnings :: "string list"
  r_resourcePaths :: "(string \<times> string) list"

definition call_exporter ::
  "exporter_call \<Rightarrow> ('s \<Rightarrow> string option \<times> 's) \<Rightarrow> 's run \<Rightarrow> string option \<times> 's run" where
  "call_exporter c f r =
     (case f (r_exporter r) of
        (thrown, s) \<Rightarrow> (thrown, r\<lparr> r_exporter := s, r_calls := r_calls r @ [(c, thrown)] \<rparr>))"

subsection \<open>Collection (lines 299-370)\<close>

text \<open>
  Modelled from the spec: \<^verbatim>\<open>ArrayUtils.unique\<close> (\<^verbatim>\<open>lib/ArrayUtils\<close> is not under
  src/). The spec has the collected attachment ids deduplicated: every id once, here at
  its first place.
\<close>

definition ArrayUtils_unique :: "'a list \<Rightarrow> 'a list" where
  "ArrayUtils_unique xs = rev (remdups (rev xs))"

definition queueExportItem :: "ItemType \<Rightarrow> itemOrId \<Rightarrow> queue_entry list \<Rightarrow> queue_entry list" where
  "queueExportItem itemType x queue = queue @ [\<lparr> entry_type = itemType, entry_itemOrId = x \<rparr>]"

record collected =
  itemsToExport :: "queue_entry list"
  exportedNoteIds :: "string list"
  resourceIds :: "string list"

text \<open>Lines 323-329: the container filter with the children of each of its members.\<close>

fun fullSourceFolderIds_loop :: "store \<Rightarrow> string list \<Rightarrow> string list \<Rightarrow> string list" where
  "fullSourceFolderIds_loop st [] fullSourceFolderIds = fullSourceFolderIds"
| "fullSourceFolderIds_loop st (i # ids) fullSourceFolderIds =
     fullSourceFolderIds_loop st ids (fullSourceFolderIds @ Folder_childrenIds st i None)"

text \<open>
  Lines 339-348. A note that does not load is \<^verbatim>\<open>null\<close>: it is queued, and reading
  its \<^verbatim>\<open>body\<close> on line 346 throws, which ends the run.
\<close>

fun notes_loop :: "store \<Rightarrow> string list \<Rightarrow> string list \<Rightarrow> collected \<Rightarrow> error + collected" where
  "notes_loop st sourceNoteIds [] c = Inr c"
| "notes_loop st sourceNoteIds (noteId # noteIds) c =
     (if sourceNoteIds \<noteq> [] \<and> noteId \<notin> set sourceNoteIds then notes_loop st sourceNoteIds noteIds c
      else (case Note_load st noteId of
              None \<Rightarrow> Inl (TypeError ''note is null'')
            | Some note \<Rightarrow>
                notes_loop st sourceNoteIds noteIds
                  (c\<lparr> itemsToExport := queueExportItem TYPE_NOTE (Obj note) (itemsToExport c),
                      exportedNoteIds := exportedNoteIds c @ [noteId],
                      resourceIds := resourceIds c @ Note_linkedResourceIds st (item_body note) \<rparr>)))"

text \<open>Lines 331-349.\<close>

fun folders_loop ::
  "store \<Rightarrow> string list \<Rightarrow> string list \<Rightarrow> string list \<Rightarrow> collected \<Rightarrow> error + collected" where
  "folders_loop st sourceFolderIds sourceNoteIds [] c = Inr c"
| "folders_loop st sourceFolderIds sourceNoteIds (folderId # folderIds) c =
     (if sourceFolderIds \<noteq> [] \<and> folderId \<notin> set sourceFolderIds
      then folders_loop st sourceFolderIds sourceNoteIds folderIds c
      else (case notes_loop st sourceNoteIds (Folder_noteIds st folderId)
                   (if sourceNoteIds = []
                    then c\<lparr> itemsToExport := queueExportItem TYPE_FOLDER (Id folderId) (itemsToExport c) \<rparr>
                    else c) of
              Inl e \<Rightarrow> Inl e
            | Inr c' \<Rightarrow> folders_loop st sourceFolderIds sourceNoteIds folderIds c'))"

text \<open>Lines 353-355 and 368-370: one entry, by id, for each member of a list of ids.\<close>

fun queue_ids_loop :: "ItemType \<Rightarrow> string list \<Rightarrow> queue_entry list \<Rightarrow> queue_entry list" where
  "queue_ids_loop itemType [] queue = queue"
| "queue_ids_loop itemType (i # ids) queue =
     queue_ids_loop itemType ids (queueExportItem itemType (Id i) queue)"

text \<open>Lines 361-366, with the queue and \<^verbatim>\<open>exportedTagIds\<close> as accumulators.\<close>

fun noteTags_loop ::
  "string list \<Rightarrow> NoteTag list \<Rightarrow> queue_entry list \<times> string list \<Rightarrow> queue_entry list \<times> string list" where
  "noteTags_loop exported [] acc = acc"
| "noteTags_loop exported (noteTag # noteTags) (queue, exportedTagIds) =
     (if nt_note_id noteTag \<notin> set exported then noteTags_loop exported noteTags (queue, exportedTagIds)
      else noteTags_loop exported noteTags
             (queueExportItem TYPE_NOTE_TAG (Id (nt_id noteTag)) queue,
              exportedTagIds @ [nt_tag_id noteTag]))"

definition export_collect :: "store \<Rightarrow> options \<Rightarrow> error + queue_entry list" where
  "export_collect st opts =
     (let sourceNoteIds = o_sourceNoteIds opts;
          folderIds = Folder_childrenIds st [] (Some True);
          sourceFolderIds = fullSourceFolderIds_loop st (o_sourceFolderIds opts) (o_sourceFolderIds opts)
      in case folders_loop st sourceFolderIds sourceNoteIds folderIds
                \<lparr> itemsToExport = [], exportedNoteIds = [], resourceIds = [] \<rparr> of
           Inl e \<Rightarrow> Inl e
         | Inr c \<Rightarrow>
             (case noteTags_loop (exportedNoteIds c) (NoteTag_all st)
                     (queue_ids_loop TYPE_RESOURCE (ArrayUtils_unique (resourceIds c)) (itemsToExport c), []) of
                (queue, exportedTagIds) \<Rightarrow> Inr (queue_ids_loop TYPE_TAG exportedTagIds queue)))"

subsection \<open>Dispatch (lines 375-422)\<close>

definition typeOrder :: "ItemType list" where
  "typeOrder = [TYPE_FOLDER, TYPE_RESOURCE, TYPE_NOTE, TYPE_TAG, TYPE_NOTE_TAG]"

definition warning_resource_missing :: "string \<Rightarrow> string" where
  "warning_resource_missing i =
     ''A resource that does not exist is referenced in a note. The resource was skipped. Resource ID: '' @ i"

definition warning_item_missing :: "store \<Rightarrow> ItemType \<Rightarrow> string \<Rightarrow> string" where
  "warning_item_missing st itemType i =
     ''Cannot find item with type \"'' @ ItemClass_tableName st itemType @ ''\" and ID ''
       @ JSON_stringify st i @ ''. Item was skipped.''"

definition warning_encrypted :: "store \<Rightarrow> ItemType \<Rightarrow> item \<Rightarrow> string" where
  "warning_encrypted st itemType it =
     ''This item is currently encrypted: '' @ modelTypeToName st itemType @ '' \"''
       @ (if item_title it \<noteq> [] then item_title it else item_id it) @ ''\" ('' @ item_id it
       @ '') and was not exported. You may wait for it to be decrypted and try again.''"

definition push_warning :: "string \<Rightarrow> 's run \<Rightarrow> 's run" where
  "push_warning w r = r\<lparr> r_warnings := r_warnings r @ [w] \<rparr>"

text \<open>
  The \<^verbatim>\<open>try\<close> block of lines 409-416: what it threw, if anything, and the run after it.
\<close>

definition try_block :: "store \<Rightarrow> 's exporter \<Rightarrow> ItemType \<Rightarrow> item \<Rightarrow> 's run \<Rightarrow> string option \<times> 's run" where
  "try_block st ex itemType it r =
     (if itemType = TYPE_RESOURCE then
        (let resourcePath = Resource_fullPath st it;
             r1 = r\<lparr> r_resourcePaths := AList.update (item_id it) resourcePath (r_resourcePaths r) \<rparr>
         in case call_exporter (UpdateContext (r_resourcePaths r1))
                   (e_updateContext ex (r_resourcePaths r1)) r1 of
              (Some msg, r2) \<Rightarrow> (Some msg, r2)
            | (None, r2) \<Rightarrow>
                (case call_exporter (ProcessResource it resourcePath)
                        (e_processResource ex it resourcePath) r2 of
                   (Some msg, r3) \<Rightarrow> (Some msg, r3)
                 | (None, r3) \<Rightarrow>
                     call_exporter (ProcessItem itemType it) (e_processItem ex itemType it) r3))
      else call_exporter (ProcessItem itemType it) (e_processItem ex itemType it) r)"

text \<open>Lines 403-420, for an item that is there: the encryption guard, then the
  \<^verbatim>\<open>try\<close> block with its \<^verbatim>\<open>catch\<close>.\<close>

definition process_loaded :: "store \<Rightarrow> 's exporter \<Rightarrow> ItemType \<Rightarrow> item \<Rightarrow> 's run \<Rightarrow> 's run" where
  "process_loaded st ex itemType it r =
     (if encryption_applied it \<or> encryption_blob_encrypted it
      then push_warning (warning_encrypted st itemType it) r
      else (case try_block st ex itemType it r of
              (None, r') \<Rightarrow> r'
            | (Some msg, r') \<Rightarrow> push_warning msg r'))"

text \<open>Lines 390-420: the body of the inner loop for an entry of the current type.\<close>

definition process_entry :: "store \<Rightarrow> 's exporter \<Rightarrow> queue_entry \<Rightarrow> 's run \<Rightarrow> 's run" where
  "process_entry st ex e r =
     (case entry_itemOrId e of
        Obj it \<Rightarrow> process_loaded st ex (entry_type e) it r
      | Id i \<Rightarrow>
          (case ItemClass_load st (entry_type e) i of
             None \<Rightarrow>
               (if entry_type e = TYPE_RESOURCE then push_warning (warning_resource_missing i) r
                else push_warning (warning_item_missing st (entry_type e) i) r)
           | Some it \<Rightarrow> process_loaded st ex (entry_type e) it r))"

text \<open>Lines 385-421: the inner loop for one type.\<close>

fun process_entries :: "store \<Rightarrow> 's exporter \<Rightarrow> ItemType \<Rightarrow> queue_entry list \<Rightarrow> 's run \<Rightarrow> 's run" where
  "process_entries st ex ty [] r = r"
| "process_entries st ex ty (e # es) r =
     (if entry_type e \<noteq> ty then process_entries st ex ty es r
      else process_entries st ex ty es (process_entry st ex e r))"

text \<open>
  Lines 380-422: the outer loop. \<^verbatim>\<open>prepareForProcessingItemType\<close> is called outside
  the \<^verbatim>\<open>try\<close>, so what it throws ends the run.
\<close>

fun dispatch_types ::
  "store \<Rightarrow> 's exporter \<Rightarrow> queue_entry list \<Rightarrow> ItemType list \<Rightarrow> 's run \<Rightarrow> string option \<times> 's run" where
  "dispatch_types st ex queue [] r = (None, r)"
| "dispatch_types st ex queue (ty # tys) r =
     (case call_exporter (PrepareForProcessingItemType ty queue)
             (e_prepareForProcessingItemType ex ty queue) r of
        (Some msg, r') \<Rightarrow> (Some msg, r')
      | (None, r') \<Rightarrow> dispatch_types st ex queue tys (process_entries st ex ty queue r'))"

subsection \<open>\<^verbatim>\<open>export\<close>\<close>

text \<open>
  \<open>instantiate\<close> stands for what the resolver does outside this file: running the custom
  factory or loading and constructing the class, then \<^verbatim>\<open>setMetadata\<close>; it gives the
  new object's state, or the error thrown. The result is what the call returns or throws,
  with the record of the exporter calls made.
\<close>

text \<open>Lines 299-302: the default format under the caller's options.\<close>

definition export_defaults :: "options \<Rightarrow> options" where
  "export_defaults opts =
     opts\<lparr> o_format := (case o_format opts of None \<Rightarrow> Some ''jex'' | Some f \<Rightarrow> Some f) \<rparr>"

text \<open>Line 304.\<close>

definition exportPath :: "options \<Rightarrow> string option" where
  "exportPath opts = (if o_path opts \<noteq> [] then Some (o_path opts) else None)"

definition export ::
  "store \<Rightarrow> Module list \<Rightarrow> (converter \<Rightarrow> error + 's) \<Rightarrow> 's exporter \<Rightarrow> options \<Rightarrow>
   (error + ImportExportResult) \<times> (exporter_call \<times> string option) list" where
  "export st mods instantiate ex options0 =
     (let opts = export_defaults options0
      in case export_collect st opts of
           Inl e \<Rightarrow> (Inl e, [])
         | Inr queue \<Rightarrow>
             (case newModuleFromPath mods Exporter (Some opts) of
                Inl e \<Rightarrow> (Inl e, [])
              | Inr c \<Rightarrow>
                  (case instantiate c of
                     Inl e \<Rightarrow> (Inl e, [])
                   | Inr s0 \<Rightarrow>
                       (case call_exporter (Init (exportPath opts) opts) (e_init ex (exportPath opts) opts)
                               \<lparr> r_exporter = s0, r_calls = [], r_warnings = [], r_resourcePaths = [] \<rparr> of
                          (Some msg, r1) \<Rightarrow> (Inl (Thrown msg), r_calls r1)
                        | (None, r1) \<Rightarrow>
                            (case dispatch_types st ex queue typeOrder r1 of
                               (Some msg, r2) \<Rightarrow> (Inl (Thrown msg), r_calls r2)
                             | (None, r2) \<Rightarrow>
                                 (case call_exporter Close (e_close ex) r2 of
                                    (Some msg, r3) \<Rightarrow> (Inl (Thrown msg), r_calls r3)
                                  | (None, r3) \<Rightarrow>
                                      (Inr \<lparr> warnings = r_warnings r3 \<rparr>, r_calls r3)))))))"

section \<open>The import pipeline (lines 258-296)\<close>

record 's importer =
  i_init :: "string \<Rightarrow> options \<Rightarrow> 's \<Rightarrow> string option \<times> 's"
  i_exec :: "ImportExportResult \<Rightarrow> 's \<Rightarrow> (string + ImportExportResult) \<times> 's"

datatype importer_call =
    Importer_init string options
  | Importer_exec ImportExportResult

text \<open>Lines 261-266: the defaults under the caller's options.\<close>

definition import_defaults :: "options \<Rightarrow> options" where
  "import_defaults opts =
     opts\<lparr> o_format := (case o_format opts of None \<Rightarrow> Some ''auto'' | Some f \<Rightarrow> Some f) \<rparr>"

text \<open>Lines 268-273.\<close>

definition import_format :: "store \<Rightarrow> Module list \<Rightarrow> options \<Rightarrow> error + options" where
  "import_format st mods opts =
     (if o_format opts = Some ''auto'' then
        (case moduleByFileExtension (String_toLowerCase st) mods Importer
                (fileExtension st (o_path opts)) of
           None \<Rightarrow> Inl (Please_specify_import_format (o_path opts))
         | Some m \<Rightarrow> Inr (opts\<lparr> o_format := Some (m_format m) \<rparr>))
      else Inr opts)"

text \<open>Lines 275-280.\<close>

definition import_destination :: "store \<Rightarrow> options \<Rightarrow> error + options" where
  "import_destination st opts =
     (if o_destinationFolderId opts \<noteq> [] then
        (case Folder_load st (o_destinationFolderId opts) of
           None \<Rightarrow> Inl (Cannot_find (o_destinationFolderId opts))
         | Some folder \<Rightarrow> Inr (opts\<lparr> o_destinationFolder := Some folder \<rparr>))
      else Inr opts)"

text \<open>Lines 261-280: the options the importer is resolved and run with.\<close>

definition import_options :: "store \<Rightarrow> Module list \<Rightarrow> options \<Rightarrow> error + options" where
  "import_options st mods options0 =
     (case import_format st mods (import_defaults options0) of
        Inl e \<Rightarrow> Inl e
      | Inr options1 \<Rightarrow> import_destination st options1)"

text \<open>
  Lines 284-290: the importer, by the path override when there is one, else by format
  and output format. \<open>instantiate\<close> is as in \<open>export\<close>.
\<close>

definition import_importer :: "Module list \<Rightarrow> (converter \<Rightarrow> error + 's) \<Rightarrow> options \<Rightarrow> error + 's" where
  "import_importer mods instantiate opts =
     (case (if o_modulePath opts \<noteq> [] then newModuleFromPath mods Importer (Some opts)
            else newModuleByFormat mods Importer (o_format opts) (o_outputFormat opts)) of
        Inl e \<Rightarrow> Inl e
      | Inr c \<Rightarrow> instantiate c)"

definition import ::
  "store \<Rightarrow> Module list \<Rightarrow> (converter \<Rightarrow> error + 's) \<Rightarrow> 's importer \<Rightarrow> options \<Rightarrow>
   (error + ImportExportResult) \<times> (importer_call \<times> string option) list" where
  "import st mods instantiate imp options0 =
     (if \<not> fsDriver_exists st (o_path options0) then (Inl (Cannot_find (o_path options0)), [])
      else
        (case import_options st mods options0 of
           Inl e \<Rightarrow> (Inl e, [])
         | Inr opts \<Rightarrow>
             (case import_importer mods instantiate opts of
                Inl e \<Rightarrow> (Inl e, [])
              | Inr s0 \<Rightarrow>
                  (case i_init imp (o_path opts) opts s0 of
                     (Some msg, s1) \<Rightarrow>
                       (Inl (Thrown msg), [(Importer_init (o_path opts) opts, Some msg)])
                   | (None, s1) \<Rightarrow>
                       (case i_exec imp \<lparr> warnings = [] \<rparr> s1 of
                          (Inl msg, s2) \<Rightarrow>
                            (Inl (Thrown msg),
                             [(Importer_init (o_path opts) opts, None),
                              (Importer_exec \<lparr> warnings = [] \<rparr>, Some msg)])
                        | (Inr result, s2) \<Rightarrow>
                            (Inr result,
                             [(Importer_init (o_path opts) opts, None),
                              (Importer_exec \<lparr> warnings = [] \<rparr>, None)]))))))"

section \<open>Definitions used to state the properties\<close>

subsection \<open>Lookups\<close>

text \<open>
  The choice among the candidates of a lookup, in the words of the specification: the
  first candidate with \<open>isDefault\<close>; when there is none, the first candidate; when there
  is no candidate, not found.
\<close>

definition default_else_first :: "Module list \<Rightarrow> Module option" where
  "default_else_first cands =
     (case filter m_isDefault cands of
        d # _ \<Rightarrow> Some d
      | [] \<Rightarrow> (case cands of c # _ \<Rightarrow> Some c | [] \<Rightarrow> None))"

text \<open>
  What the two discriminators of a lookup keep, case by case; the last line is the
  source's \<^verbatim>\<open>else if\<close> chain when a call supplies both.
\<close>

definition discriminates ::
  "FileSystemItem option \<Rightarrow> ImportModuleOutputFormat option \<Rightarrow> Module \<Rightarrow> bool" where
  "discriminates target outputFormat m =
     (case (target, outputFormat) of
        (None, None) \<Rightarrow> True
      | (Some t, None) \<Rightarrow> m_target m = Some t
      | (None, Some f) \<Rightarrow> m_outputFormat m = Some f
      | (Some t, Some f) \<Rightarrow> m_target m = Some t \<or> m_outputFormat m = Some f)"

text \<open>
  The lookup by format in the words of the specification, where a target keeps the
  modules whose \<open>target\<close> or \<open>sources\<close> equals it.
\<close>

definition discriminates_as_claimed ::
  "FileSystemItem option \<Rightarrow> ImportModuleOutputFormat option \<Rightarrow> Module \<Rightarrow> bool" where
  "discriminates_as_claimed target outputFormat m =
     (case (target, outputFormat) of
        (None, None) \<Rightarrow> True
      | (Some t, None) \<Rightarrow> m_target m = Some t \<or> m_sources m = [t]
      | (None, Some f) \<Rightarrow> m_outputFormat m = Some f
      | (Some t, Some f) \<Rightarrow> m_target m = Some t \<or> m_sources m = [t] \<or> m_outputFormat m = Some f)"

definition findModuleByFormat_as_claimed ::
  "Module list \<Rightarrow> ModuleType \<Rightarrow> string option \<Rightarrow> FileSystemItem option \<Rightarrow>
   ImportModuleOutputFormat option \<Rightarrow> Module option" where
  "findModuleByFormat_as_claimed mods ty fmt target outputFormat =
     default_else_first
       (filter (\<lambda>m. Some (m_format m) = fmt \<and> m_type m = ty
                  \<and> discriminates_as_claimed target outputFormat m) mods)"

text \<open>
  The lookup by extension in the words of the specification: a scan that ignores case,
  for the first module of the type whose extensions contain \<open>ext\<close>.
\<close>

definition moduleByFileExtension_as_claimed ::
  "(string \<Rightarrow> string) \<Rightarrow> Module list \<Rightarrow> ModuleType \<Rightarrow> string \<Rightarrow> Module option" where
  "moduleByFileExtension_as_claimed unicode mods ty ext =
     find (\<lambda>m. m_type m = ty \<and>
             (case m_fileExtensions m of
                None \<Rightarrow> False
              | Some es \<Rightarrow> toLowerCase unicode ext \<in> set (map (toLowerCase unicode) es))) mods"

subsection \<open>The queue\<close>

text \<open>Queue entries by id and by object.\<close>

abbreviation by_id :: "ItemType \<Rightarrow> string \<Rightarrow> queue_entry" where
  "by_id ty i \<equiv> \<lparr> entry_type = ty, entry_itemOrId = Id i \<rparr>"

abbreviation loaded :: "ItemType \<Rightarrow> item \<Rightarrow> queue_entry" where
  "loaded ty it \<equiv> \<lparr> entry_type = ty, entry_itemOrId = Obj it \<rparr>"



subsection \<open>The record of a run\<close>

text \<open>
  Line 392: the object of an entry. Line 403: the guard on the two encryption flags.
\<close>

definition resolve :: "store \<Rightarrow> queue_entry \<Rightarrow> item option" where
  "resolve st e =
     (case entry_itemOrId e of Obj it \<Rightarrow> Some it | Id i \<Rightarrow> ItemClass_load st (entry_type e) i)"

definition encrypted :: "item \<Rightarrow> bool" where
  "encrypted it = (encryption_applied it \<or> encryption_blob_encrypted it)"

text \<open>
  The items of a type that are to be dispatched: those of the queue's entries of the
  type, in queue order, that are there and not encrypted.
\<close>

definition dispatchable :: "store \<Rightarrow> ItemType \<Rightarrow> queue_entry list \<Rightarrow> item list" where
  "dispatchable st ty queue =
     concat (map (\<lambda>e. case resolve st e of
                         None \<Rightarrow> []
                       | Some it \<Rightarrow> if encrypted it then [] else [it])
               (filter (\<lambda>e. entry_type e = ty) queue))"

text \<open>The warning an entry is skipped with, if it is skipped.\<close>

definition skip_warning :: "store \<Rightarrow> queue_entry \<Rightarrow> string option" where
  "skip_warning st e =
     (case resolve st e of
        None \<Rightarrow>
          (case entry_itemOrId e of
             Id i \<Rightarrow> Some (if entry_type e = TYPE_RESOURCE then warning_resource_missing i
                           else warning_item_missing st (entry_type e) i)
           | Obj it \<Rightarrow> None)
      | Some it \<Rightarrow> if encrypted it then Some (warning_encrypted st (entry_type e) it) else None)"

text \<open>
  The calls that dispatch an entry of a type: \<^verbatim>\<open>processItem\<close> with that type, and
  for an attachment \<^verbatim>\<open>updateContext\<close> and \<^verbatim>\<open>processResource\<close> before it.
\<close>

fun entry_call :: "ItemType \<Rightarrow> exporter_call \<Rightarrow> bool" where
  "entry_call ty (ProcessItem ty' it) = (ty' = ty)"
| "entry_call ty (ProcessResource it p) = (ty = TYPE_RESOURCE)"
| "entry_call ty (UpdateContext paths) = (ty = TYPE_RESOURCE)"
| "entry_call ty (Init p os) = False"
| "entry_call ty (PrepareForProcessingItemType ty' q) = False"
| "entry_call ty Close = False"

text \<open>The items given to \<^verbatim>\<open>processItem\<close>, in call order.\<close>

fun items_processed :: "exporter_call list \<Rightarrow> item list" where
  "items_processed [] = []"
| "items_processed (ProcessItem ty it # cs) = it # items_processed cs"
| "items_processed (c # cs) = items_processed cs"

text \<open>
  The first call of an item's dispatch: for an attachment \<^verbatim>\<open>updateContext\<close> with a
  context that holds its path, for any other item \<^verbatim>\<open>processItem\<close>.
\<close>

fun starts_dispatch :: "store \<Rightarrow> ItemType \<Rightarrow> item \<Rightarrow> exporter_call \<Rightarrow> bool" where
  "starts_dispatch st ty it (UpdateContext paths) =
     (ty = TYPE_RESOURCE \<and> map_of paths (item_id it) = Some (Resource_fullPath st it))"
| "starts_dispatch st ty it (ProcessItem ty' it') = (ty \<noteq> TYPE_RESOURCE \<and> ty' = ty \<and> it' = it)"
| "starts_dispatch st ty it (ProcessResource it' p) = False"
| "starts_dispatch st ty it (Init p os) = False"
| "starts_dispatch st ty it (PrepareForProcessingItemType ty' q) = False"
| "starts_dispatch st ty it Close = False"

text \<open>
  The calls between two \<^verbatim>\<open>prepareForProcessingItemType\<close>: all of them dispatch
  entries of the one type; the items processed are items to be dispatched, in queue
  order; and the dispatch of every item to be dispatched is begun.
\<close>

definition dispatch_block :: "store \<Rightarrow> ItemType \<Rightarrow> queue_entry list \<Rightarrow> exporter_call list \<Rightarrow> bool" where
  "dispatch_block st ty queue cs =
     (list_all (entry_call ty) cs
      \<and> subseq (items_processed cs) (dispatchable st ty queue)
      \<and> list_all (\<lambda>it. list_ex (starts_dispatch st ty it) cs) (dispatchable st ty queue))"

text \<open>Each type's calls form a dispatch block of the queue.\<close>

definition dispatch_blocks ::
  "store \<Rightarrow> queue_entry list \<Rightarrow> ItemType list \<Rightarrow> exporter_call list list \<Rightarrow> bool" where
  "dispatch_blocks st queue tys bs = list_all2 (\<lambda>ty b. dispatch_block st ty queue b) tys bs"

text \<open>The calls of the outer loop: for each type its preparation, then its block.\<close>

fun dispatch_log :: "queue_entry list \<Rightarrow> ItemType list \<Rightarrow> exporter_call list list \<Rightarrow> exporter_call list" where
  "dispatch_log queue (ty # tys) (b # bs) =
     PrepareForProcessingItemType ty queue # b @ dispatch_log queue tys bs"
| "dispatch_log queue [] bs = []"
| "dispatch_log queue tys [] = []"

text \<open>
  What handling the entries \<open>es\<close> for the type \<open>ty\<close> does to a run: it adds calls that
  form a dispatch block of \<open>es\<close>, and warnings, among them the message of every error
  thrown and the warning of every entry skipped.
\<close>

definition entries_effect ::
  "store \<Rightarrow> ItemType \<Rightarrow> queue_entry list \<Rightarrow> 's run \<Rightarrow> 's run \<Rightarrow> bool" where
  "entries_effect st ty es r r' =
     (\<exists>new ws.
        r_calls r' = r_calls r @ new
      \<and> r_warnings r' = r_warnings r @ ws
      \<and> dispatch_block st ty es (map fst new)
      \<and> (\<forall>c msg. (c, Some msg) \<in> set new \<longrightarrow> msg \<in> set ws)
      \<and> (\<forall>e w. e \<in> set es \<and> entry_type e = ty \<and> skip_warning st e = Some w \<longrightarrow> w \<in> set ws))"

subsection \<open>The trace of a run\<close>







section \<open>A small store, exporter and importer\<close>

text \<open>Options with nothing set.\<close>

definition no_options :: options where
  "no_options =
     \<lparr> o_path = [], o_format = None, o_modulePath = [], o_target = None,
       o_outputFormat = None, o_sourceFolderIds = [], o_sourceNoteIds = [],
       o_destinationFolderId = [], o_destinationFolder = None \<rparr>"

text \<open>
  An export to an HTML directory through an implementation of the caller's, and one
  that names a format no built-in module has.
\<close>

definition override_options :: options where
  "override_options =
     no_options\<lparr> o_path := ''/tmp/out'', o_format := Some ''html'',
       o_modulePath := ''lib/custom/MyHtml'', o_target := Some Directory,
       o_outputFormat := Some Html \<rparr>"

definition unknown_format_options :: options where
  "unknown_format_options =
     no_options\<lparr> o_path := ''/tmp/out'', o_format := Some ''docx'',
       o_modulePath := ''lib/custom/MyDocx'' \<rparr>"

subsection \<open>The store\<close>

text \<open>
  One container with two documents. Both documents reference attachment \<open>r1\<close>; the
  first also references \<open>r9\<close>, which the store does not have, the second \<open>r2\<close>,
  which is still encrypted. Both documents carry the label \<open>t1\<close>.
\<close>

definition plain_item :: "string \<Rightarrow> string \<Rightarrow> string \<Rightarrow> item" where
  "plain_item i title body =
     \<lparr> item_id = i, item_title = title, item_body = body,
       encryption_applied = False, encryption_blob_encrypted = False \<rparr>"

definition example_store :: store where
  "example_store =
     \<lparr> Folder_childrenIds = (\<lambda>parent recursive. if parent = [] then [''f1''] else []),
       Folder_noteIds = (\<lambda>f. if f = ''f1'' then [''n1'', ''n2''] else []),
       Folder_load = (\<lambda>i. if i = ''f1'' then Some (plain_item ''f1'' ''Inbox'' []) else None),
       Note_load =
         (\<lambda>i. if i = ''n1'' then Some (plain_item ''n1'' ''First'' ''b1'')
              else if i = ''n2'' then Some (plain_item ''n2'' ''Second'' ''b2'')
              else None),
       Note_linkedResourceIds =
         (\<lambda>body. if body = ''b1'' then [''r1'', ''r9'']
                 else if body = ''b2'' then [''r1'', ''r2'']
                 else []),
       NoteTag_all =
         [ \<lparr> nt_id = ''a1'', nt_note_id = ''n1'', nt_tag_id = ''t1'' \<rparr>,
           \<lparr> nt_id = ''a2'', nt_note_id = ''n2'', nt_tag_id = ''t1'' \<rparr> ],
       ItemClass_load =
         (\<lambda>ty i. case ty of
             TYPE_FOLDER \<Rightarrow> if i = ''f1'' then Some (plain_item ''f1'' ''Inbox'' []) else None
           | TYPE_RESOURCE \<Rightarrow>
               if i = ''r1'' then Some (plain_item ''r1'' ''photo'' [])
               else if i = ''r2'' then Some ((plain_item ''r2'' [] [])\<lparr> encryption_blob_encrypted := True \<rparr>)
               else None
           | TYPE_NOTE \<Rightarrow>
               if i = ''n1'' then Some (plain_item ''n1'' ''First'' ''b1'')
               else if i = ''n2'' then Some (plain_item ''n2'' ''Second'' ''b2'')
               else None
           | TYPE_TAG \<Rightarrow> if i = ''t1'' then Some (plain_item ''t1'' ''todo'' []) else None
           | TYPE_NOTE_TAG \<Rightarrow>
               if i = ''a1'' then Some (plain_item ''a1'' [] [])
               else if i = ''a2'' then Some (plain_item ''a2'' [] [])
               else None),
       ItemClass_tableName =
         (\<lambda>ty. case ty of TYPE_FOLDER \<Rightarrow> ''folders'' | TYPE_RESOURCE \<Rightarrow> ''resources''
               | TYPE_NOTE \<Rightarrow> ''notes'' | TYPE_TAG \<Rightarrow> ''tags'' | TYPE_NOTE_TAG \<Rightarrow> ''note_tags''),
       modelTypeToName =
         (\<lambda>ty. case ty of TYPE_FOLDER \<Rightarrow> ''folder'' | TYPE_RESOURCE \<Rightarrow> ''resource''
               | TYPE_NOTE \<Rightarrow> ''note'' | TYPE_TAG \<Rightarrow> ''tag'' | TYPE_NOTE_TAG \<Rightarrow> ''note_tag''),
       Resource_fullPath = (\<lambda>it. ''/res/'' @ item_id it),
       JSON_stringify = (\<lambda>s. ''\"'' @ s @ ''\"''),
       fsDriver_exists = (\<lambda>p. p = ''/in/a.md'' \<or> p = ''/in/b.docx''),
       fileExtension = (\<lambda>p. if p = ''/in/a.md'' then ''md'' else if p = ''/in/b.docx'' then ''docx'' else []),
       String_toLowerCase = (\<lambda>s. s) \<rparr>"

text \<open>The queue an export of the whole small store collects.\<close>

definition example_queue :: "queue_entry list" where
  "example_queue =
     [ by_id TYPE_FOLDER ''f1'',
       loaded TYPE_NOTE (plain_item ''n1'' ''First'' ''b1''),
       loaded TYPE_NOTE (plain_item ''n2'' ''Second'' ''b2''),
       by_id TYPE_RESOURCE ''r1'', by_id TYPE_RESOURCE ''r9'', by_id TYPE_RESOURCE ''r2'',
       by_id TYPE_NOTE_TAG ''a1'', by_id TYPE_NOTE_TAG ''a2'',
       by_id TYPE_TAG ''t1'', by_id TYPE_TAG ''t1'' ]"

subsection \<open>The exporter\<close>

text \<open>
  An exporter that keeps the ids of the items it has written, and whose
  \<^verbatim>\<open>processItem\<close> throws on the document \<open>n2\<close>; the class loader always gives a
  fresh one. The options ask for an export of everything to \<open>/tmp/out\<close>.
\<close>

definition example_exporter :: "string list exporter" where
  "example_exporter =
     \<lparr> e_init = (\<lambda>p os s. (None, [])),
       e_prepareForProcessingItemType = (\<lambda>ty q s. (None, s)),
       e_updateContext = (\<lambda>paths s. (None, s)),
       e_processResource = (\<lambda>it p s. (None, s)),
       e_processItem =
         (\<lambda>ty it s. if item_id it = ''n2'' then (Some ''disk full'', s) else (None, s @ [item_id it])),
       e_close = (\<lambda>s. (None, s)) \<rparr>"

definition example_instantiate :: "converter \<Rightarrow> error + string list" where
  "example_instantiate c = Inr []"

definition example_options :: options where
  "example_options = no_options\<lparr> o_path := ''/tmp/out'' \<rparr>"

text \<open>What the resolver builds for these options: the built-in JEX exporter.\<close>

definition example_converter :: converter where
  "example_converter =
     \<lparr> c_construction = ModuleClass (modulePath (exportModules ! 0)),
       c_metadata = \<lparr> md_options = Some (export_defaults example_options),
                      md_module = exportModules ! 0 \<rparr> \<rparr>"

text \<open>The record of the calls of that export, and its warnings.\<close>

definition example_log :: "(exporter_call \<times> string option) list" where
  "example_log =
     [ (Init (Some ''/tmp/out'') (export_defaults example_options), None),
       (PrepareForProcessingItemType TYPE_FOLDER example_queue, None),
       (ProcessItem TYPE_FOLDER (plain_item ''f1'' ''Inbox'' []), None),
       (PrepareForProcessingItemType TYPE_RESOURCE example_queue, None),
       (UpdateContext [(''r1'', ''/res/r1'')], None),
       (ProcessResource (plain_item ''r1'' ''photo'' []) ''/res/r1'', None),
       (ProcessItem TYPE_RESOURCE (plain_item ''r1'' ''photo'' []), None),
       (PrepareForProcessingItemType TYPE_NOTE example_queue, None),
       (ProcessItem TYPE_NOTE (plain_item ''n1'' ''First'' ''b1''), None),
       (ProcessItem TYPE_NOTE (plain_item ''n2'' ''Second'' ''b2''), Some ''disk full''),
       (PrepareForProcessingItemType TYPE_TAG example_queue, None),
       (ProcessItem TYPE_TAG (plain_item ''t1'' ''todo'' []), None),
       (ProcessItem TYPE_TAG (plain_item ''t1'' ''todo'' []), None),
       (PrepareForProcessingItemType TYPE_NOTE_TAG example_queue, None),
       (ProcessItem TYPE_NOTE_TAG (plain_item ''a1'' [] []), None),
       (ProcessItem TYPE_NOTE_TAG (plain_item ''a2'' [] []), None),
       (Close, None) ]"

definition example_warnings :: "string list" where
  "example_warnings =
     [ warning_resource_missing ''r9'',
       warning_encrypted example_store TYPE_RESOURCE
         ((plain_item ''r2'' [] [])\<lparr> encryption_blob_encrypted := True \<rparr>),
       ''disk full'' ]"

subsection \<open>The importer\<close>

text \<open>
  An importer that reports one warning, one whose \<^verbatim>\<open>init\<close> throws and one whose
  \<^verbatim>\<open>exec\<close> throws, and three imports: of a Markdown file with no format given, of a
  file whose extension no importer lists, and of the Markdown file with a format no
  importer has.
\<close>

definition example_importer :: "string list importer" where
  "example_importer =
     \<lparr> i_init = (\<lambda>path os s. (None, [path])),
       i_exec = (\<lambda>result s. (Inr (result\<lparr> warnings := warnings result @ [''1 note skipped''] \<rparr>), s)) \<rparr>"

definition failing_init_importer :: "string list importer" where
  "failing_init_importer = example_importer\<lparr> i_init := (\<lambda>path os s. (Some ''not a file'', s)) \<rparr>"

definition failing_exec_importer :: "string list importer" where
  "failing_exec_importer = example_importer\<lparr> i_exec := (\<lambda>result s. (Inl ''bad front matter'', s)) \<rparr>"

definition import_md_options :: options where
  "import_md_options = no_options\<lparr> o_path := ''/in/a.md'' \<rparr>"

definition import_docx_options :: options where
  "import_docx_options = no_options\<lparr> o_path := ''/in/b.docx'' \<rparr>"

definition import_unknown_format_options :: options where
  "import_unknown_format_options = no_options\<lparr> o_path := ''/in/a.md'', o_format := Some ''docx'' \<rparr>"

subsection \<open>A registered importer\<close>

text \<open>
  The descriptor that \<^verbatim>\<open>registerModule\<close> stores for an importer of format \<open>zz\<close>
  registered with the extension \<open>ZZ\<close>: the defaults with the given fields over them.
\<close>

definition zz_importer :: Module where
  "zz_importer =
     (defaultImportExportModule Importer)
       \<lparr> m_format := ''zz'', m_fileExtensions := Some [''ZZ''], m_sources := [File] \<rparr>"

section \<open>Properties of the registry\<close>

lemmas builtin_defs = modules_def importModules_def exportModules_def defaultImportExportModule_def

lemma toLowerCase_char_upper:
  "toLowerCase_char CHR ''E'' = CHR ''e''" "toLowerCase_char CHR ''N'' = CHR ''n''"
  "toLowerCase_char CHR ''X'' = CHR ''x''" "toLowerCase_char CHR ''M'' = CHR ''m''"
  "toLowerCase_char CHR ''D'' = CHR ''d''" "toLowerCase_char CHR ''Z'' = CHR ''z''"
  by code_simp+

lemma toLowerCase_ENEX: "toLowerCase unicode ''ENEX'' = ''enex''"
  by (simp add: toLowerCase_def is_ascii_def toLowerCase_char_upper)

lemma toLowerCase_enex: "toLowerCase unicode ''enex'' = ''enex''"
  by (simp add: toLowerCase_def is_ascii_def toLowerCase_char_def)

lemma findModuleByFormat_loop_filter:
  "findModuleByFormat_loop ms ty fmt target outputFormat acc =
     acc @ filter (\<lambda>m. Some (m_format m) = fmt \<and> m_type m = ty \<and> discriminates target outputFormat m) ms"
  by (induction ms arbitrary: acc) (auto simp: discriminates_def split: option.splits)

lemma find_as_filter: "find P xs = (case filter P xs of [] \<Rightarrow> None | x # _ \<Rightarrow> Some x)"
  by (induction xs) auto

lemma findModuleByFormat_eq:
  "findModuleByFormat mods ty fmt target outputFormat =
     default_else_first
       (filter (\<lambda>m. Some (m_format m) = fmt \<and> m_type m = ty \<and> discriminates target outputFormat m) mods)"
  by (simp add: findModuleByFormat_def findModuleByFormat_loop_filter default_else_first_def
      find_as_filter split: list.splits)

text \<open>
  The choice does not depend on where the default stands among the candidates, and
  falls back to list order.
\<close>

lemma default_else_first_position:
  "m_isDefault d \<Longrightarrow> \<forall>m \<in> set pre. \<not> m_isDefault m \<Longrightarrow>
   default_else_first (pre @ d # post) = Some d"
  by (simp add: default_else_first_def)

lemma default_else_first_no_default:
  "\<forall>m \<in> set cands. \<not> m_isDefault m \<Longrightarrow>
   default_else_first cands = (case cands of [] \<Rightarrow> None | c # _ \<Rightarrow> Some c)"
  by (cases cands) (auto simp: default_else_first_def filter_empty_conv split: list.splits)

text \<open>
  C2. \<^verbatim>\<open>findModuleByFormat_(type, format, target, outputFormat)\<close> keeps the modules of
  equal type and format; with neither discriminator each of them is a candidate, with a
  target those whose \<open>target\<close> equals it, with an output format those whose
  \<open>outputFormat\<close> equals it (and with both, those that either keeps); it returns the
  first candidate with \<open>isDefault\<close> wherever it stands among the candidates, else the
  first candidate in list order, else not found. The comparison is with the
  descriptor's \<open>target\<close>; the list \<open>sources\<close> of an importer never equals a target
  and is not read.
\<close>

theorem findModuleByFormat_candidates:
  "findModuleByFormat mods ty fmt None None =
     default_else_first (filter (\<lambda>m. Some (m_format m) = fmt \<and> m_type m = ty) mods)
   \<and> findModuleByFormat mods ty fmt (Some t) None =
     default_else_first
       (filter (\<lambda>m. Some (m_format m) = fmt \<and> m_type m = ty \<and> m_target m = Some t) mods)
   \<and> findModuleByFormat mods ty fmt None (Some f) =
     default_else_first
       (filter (\<lambda>m. Some (m_format m) = fmt \<and> m_type m = ty \<and> m_outputFormat m = Some f) mods)
   \<and> findModuleByFormat mods ty fmt (Some t) (Some f) =
     default_else_first
       (filter (\<lambda>m. Some (m_format m) = fmt \<and> m_type m = ty \<and>
                 (m_target m = Some t \<or> m_outputFormat m = Some f)) mods)
   \<and> (\<forall>pre d post.
         filter (\<lambda>m. Some (m_format m) = fmt \<and> m_type m = ty
                   \<and> discriminates target outputFormat m) mods = pre @ d # post
         \<and> m_isDefault d \<and> (\<forall>m \<in> set pre. \<not> m_isDefault m) \<longrightarrow>
         findModuleByFormat mods ty fmt target outputFormat = Some d)"
proof -
  have neither: "findModuleByFormat mods ty fmt None None =
     default_else_first (filter (\<lambda>m. Some (m_format m) = fmt \<and> m_type m = ty) mods)"
    by (simp add: findModuleByFormat_eq discriminates_def)
  have by_target: "findModuleByFormat mods ty fmt (Some t) None =
     default_else_first
       (filter (\<lambda>m. Some (m_format m) = fmt \<and> m_type m = ty \<and> m_target m = Some t) mods)"
    by (simp add: findModuleByFormat_eq discriminates_def)
  have by_output: "findModuleByFormat mods ty fmt None (Some f) =
     default_else_first
       (filter (\<lambda>m. Some (m_format m) = fmt \<and> m_type m = ty \<and> m_outputFormat m = Some f) mods)"
    by (simp add: findModuleByFormat_eq discriminates_def)
  have by_both: "findModuleByFormat mods ty fmt (Some t) (Some f) =
     default_else_first
       (filter (\<lambda>m. Some (m_format m) = fmt \<and> m_type m = ty \<and>
                 (m_target m = Some t \<or> m_outputFormat m = Some f)) mods)"
    by (simp add: findModuleByFormat_eq discriminates_def)
  have position: "\<forall>pre d post.
         filter (\<lambda>m. Some (m_format m) = fmt \<and> m_type m = ty
                   \<and> discriminates target outputFormat m) mods = pre @ d # post
         \<and> m_isDefault d \<and> (\<forall>m \<in> set pre. \<not> m_isDefault m) \<longrightarrow>
         findModuleByFormat mods ty fmt target outputFormat = Some d"
    by (simp add: findModuleByFormat_eq default_else_first_position)
  from neither by_target by_output by_both position show ?thesis
    by (intro conjI)
qed

theorem findModuleByFormat_candidates_witness:
  "findModuleByFormat (modules []) Importer (Some ''enex'') None None = Some (importModules ! 3)
   \<and> findModuleByFormat (modules []) Importer (Some ''enex'') None (Some Html) = Some (importModules ! 4)
   \<and> findModuleByFormat (modules []) Exporter (Some ''html'') (Some Directory) None = Some (exportModules ! 4)
   \<and> findModuleByFormat (modules []) Exporter (Some ''enex'') None None = None
   \<and> m_isDefault (importModules ! 3) \<and> \<not> m_isDefault (importModules ! 4)
   \<and> findModuleByFormat [importModules ! 4, importModules ! 3] Importer (Some ''enex'') None None
       = Some (importModules ! 3)"
proof -
  note t = findModuleByFormat_candidates
  have builtin:
    "findModuleByFormat (modules []) Importer (Some ''enex'') None None = Some (importModules ! 3)
     \<and> findModuleByFormat (modules []) Importer (Some ''enex'') None (Some Html) = Some (importModules ! 4)
     \<and> findModuleByFormat (modules []) Exporter (Some ''html'') (Some Directory) None = Some (exportModules ! 4)
     \<and> findModuleByFormat (modules []) Exporter (Some ''enex'') None None = None"
    using t [of "modules []" Importer "Some ''enex''" File Html]
      t [of "modules []" Exporter "Some ''html''" Directory Html]
      t [of "modules []" Exporter "Some ''enex''" Directory Html]
    by (simp add: builtin_defs default_else_first_def)
  let ?html = "importModules ! 4" and ?md = "importModules ! 3"
  have d: "m_isDefault ?md" "\<not> m_isDefault ?html"
    by (simp_all add: builtin_defs)
  have c: "filter (\<lambda>m. Some (m_format m) = Some ''enex'' \<and> m_type m = Importer
                    \<and> discriminates None None m) [?html, ?md] = [?html] @ ?md # []"
    by (simp add: builtin_defs discriminates_def)
  from t [of "[?html, ?md]" Importer "Some ''enex''" File Html None None]
  have "\<forall>pre d post.
         filter (\<lambda>m. Some (m_format m) = Some ''enex'' \<and> m_type m = Importer
                   \<and> discriminates None None m) [?html, ?md] = pre @ d # post
         \<and> m_isDefault d \<and> (\<forall>m \<in> set pre. \<not> m_isDefault m) \<longrightarrow>
         findModuleByFormat [?html, ?md] Importer (Some ''enex'') None None = Some d"
    by (elim conjE)
  then have "filter (\<lambda>m. Some (m_format m) = Some ''enex'' \<and> m_type m = Importer
                    \<and> discriminates None None m) [?html, ?md] = [?html] @ ?md # []
         \<and> m_isDefault ?md \<and> (\<forall>m \<in> set [?html]. \<not> m_isDefault m) \<longrightarrow>
         findModuleByFormat [?html, ?md] Importer (Some ''enex'') None None = Some ?md"
    by (elim allE)
  with c d have "findModuleByFormat [?html, ?md] Importer (Some ''enex'') None None = Some ?md"
    by simp
  with builtin d show ?thesis
    by (intro conjI) simp_all
qed

text \<open>
  The built-in importer of format \<open>raw\<close> has the sources \<open>[Directory]\<close> and no
  target. The lookup of an importer of that format with the target \<open>Directory\<close> finds
  nothing, where a lookup that also compared \<open>sources\<close> would return it.
\<close>

theorem findModuleByFormat_sources_counterexample:
  "importModules ! 2 \<in> set (modules [])
   \<and> m_type (importModules ! 2) = Importer
   \<and> m_format (importModules ! 2) = ''raw''
   \<and> m_sources (importModules ! 2) = [Directory]
   \<and> m_target (importModules ! 2) = None
   \<and> findModuleByFormat (modules []) Importer (Some ''raw'') (Some Directory) None = None
   \<and> findModuleByFormat_as_claimed (modules []) Importer (Some ''raw'') (Some Directory) None
       = Some (importModules ! 2)"
  by (simp add: findModuleByFormat_def findModuleByFormat_as_claimed_def
      discriminates_as_claimed_def default_else_first_def builtin_defs)

lemma moduleByFileExtension_loop_find:
  "moduleByFileExtension_loop ms ty ext =
     find (\<lambda>m. m_type m = ty \<and> (case m_fileExtensions m of None \<Rightarrow> False | Some es \<Rightarrow> ext \<in> set es)) ms"
  by (induction ms) auto

text \<open>
  C9. \<^verbatim>\<open>moduleByFileExtension_(type, ext)\<close> lower-cases \<open>ext\<close> and returns the
  first module of the type, in list order, whose extensions, as they are stored,
  contain it; so two queries that differ in case only give the same module, "ENEX" and
  "enex" among them; and the result is not found when no module of the type lists the
  lower-cased \<open>ext\<close>.
\<close>

theorem moduleByFileExtension_scan:
  "moduleByFileExtension unicode mods ty ext =
     find (\<lambda>m. m_type m = ty \<and>
             (case m_fileExtensions m of
                None \<Rightarrow> False
              | Some es \<Rightarrow> toLowerCase unicode ext \<in> set es)) mods
   \<and> (toLowerCase unicode ext' = toLowerCase unicode ext \<longrightarrow>
        moduleByFileExtension unicode mods ty ext' = moduleByFileExtension unicode mods ty ext)
   \<and> moduleByFileExtension unicode mods ty ''ENEX'' = moduleByFileExtension unicode mods ty ''enex''
   \<and> ((\<forall>m \<in> set mods. m_type m = ty \<longrightarrow>
          (case m_fileExtensions m of
             None \<Rightarrow> True
           | Some es \<Rightarrow> toLowerCase unicode ext \<notin> set es)) \<longrightarrow>
        moduleByFileExtension unicode mods ty ext = None)"
proof -
  have none: "moduleByFileExtension unicode mods ty ext = None"
    if "\<forall>m \<in> set mods. m_type m = ty \<longrightarrow>
          (case m_fileExtensions m of
             None \<Rightarrow> True
           | Some es \<Rightarrow> toLowerCase unicode ext \<notin> set es)"
    using that
    by (auto simp: moduleByFileExtension_def moduleByFileExtension_loop_find find_None_iff
        split: option.splits)
  show ?thesis
    using none
    by (simp add: moduleByFileExtension_def moduleByFileExtension_loop_find toLowerCase_ENEX
        toLowerCase_enex)
qed

theorem moduleByFileExtension_scan_witness:
  "toLowerCase (\<lambda>s. s) ''Md'' = toLowerCase (\<lambda>s. s) ''MD''
   \<and> moduleByFileExtension (\<lambda>s. s) (modules []) Importer ''Md''
       = moduleByFileExtension (\<lambda>s. s) (modules []) Importer ''MD''
   \<and> moduleByFileExtension (\<lambda>s. s) (modules []) Importer ''ENEX'' = Some (importModules ! 3)
   \<and> moduleByFileExtension (\<lambda>s. s) (modules []) Importer ''enex'' = Some (importModules ! 3)
   \<and> moduleByFileExtension (\<lambda>s. s) (modules []) Exporter ''enex'' = None"
proof -
  have "toLowerCase_char CHR ''d'' = CHR ''d''"
    by (simp add: toLowerCase_char_def)
  then have low: "toLowerCase (\<lambda>s. s) ''Md'' = ''md''" "toLowerCase (\<lambda>s. s) ''MD'' = ''md''"
    by (simp_all add: toLowerCase_def is_ascii_def toLowerCase_char_upper)
  have "moduleByFileExtension (\<lambda>s. s) (modules []) Importer ''enex'' = Some (importModules ! 3)"
    using moduleByFileExtension_scan [of "\<lambda>s. s" "modules []" Importer "''enex''" "''enex''"]
    by (simp add: builtin_defs toLowerCase_enex)
  moreover have "moduleByFileExtension (\<lambda>s. s) (modules []) Exporter ''enex'' = None"
    using moduleByFileExtension_scan [of "\<lambda>s. s" "modules []" Exporter "''enex''" "''enex''"]
    by (simp add: builtin_defs toLowerCase_enex)
  ultimately show ?thesis
    using moduleByFileExtension_scan [of "\<lambda>s. s" "modules []" Importer "''MD''" "''Md''"]
      moduleByFileExtension_scan [of "\<lambda>s. s" "modules []" Importer "''enex''" "''enex''"]
    by (simp add: low)
qed

text \<open>
  With the importer registered for the extension \<open>ZZ\<close>, the lookups of \<open>ZZ\<close> and of
  \<open>zz\<close> both find nothing, whatever the case mapping beyond ASCII, although the
  importer lists \<open>ZZ\<close>: only the query is lower-cased. A scan that ignores case returns
  the importer for both.
\<close>

theorem moduleByFileExtension_stored_case_counterexample:
  "\<forall>unicode.
     zz_importer \<in> set (modules [zz_importer])
   \<and> m_type zz_importer = Importer
   \<and> m_fileExtensions zz_importer = Some [''ZZ'']
   \<and> moduleByFileExtension unicode (modules [zz_importer]) Importer ''ZZ'' = None
   \<and> moduleByFileExtension unicode (modules [zz_importer]) Importer ''zz'' = None
   \<and> moduleByFileExtension_as_claimed unicode (modules [zz_importer]) Importer ''ZZ'' = Some zz_importer
   \<and> moduleByFileExtension_as_claimed unicode (modules [zz_importer]) Importer ''zz'' = Some zz_importer"
proof -
  have low: "toLowerCase unicode ''ZZ'' = ''zz''" "toLowerCase unicode ''zz'' = ''zz''" for unicode
    by (simp_all add: toLowerCase_def is_ascii_def toLowerCase_char_upper)
       (simp add: toLowerCase_char_def)
  have builtin: "toLowerCase unicode ''jex'' = ''jex''" "toLowerCase unicode ''md'' = ''md''"
    "toLowerCase unicode ''markdown'' = ''markdown''" "toLowerCase unicode ''txt'' = ''txt''"
    "toLowerCase unicode ''enex'' = ''enex''" for unicode
    by (simp_all add: toLowerCase_def is_ascii_def toLowerCase_char_def)
  show ?thesis
    by (simp add: moduleByFileExtension_def moduleByFileExtension_as_claimed_def low builtin
        zz_importer_def builtin_defs)
qed

section \<open>Properties of the resolver\<close>

text \<open>Without a path override, the descriptor found gives the computed path, and a
  lookup that finds nothing is the descriptive error.\<close>

lemma newModuleFromPath_computed:
  assumes "o_modulePath os = []"
  shows "newModuleFromPath mods ty (Some os) =
           (case findModuleByFormat mods ty (o_format os) (o_target os) None of
              None \<Rightarrow> Inl (Cannot_load_module_target ty (o_format os) (o_target os))
            | Some md \<Rightarrow>
                Inr \<lparr> c_construction =
                        (case m_instanceFactory md of
                           Some f \<Rightarrow> newModuleFromCustomFactory md f
                         | None \<Rightarrow> ModuleClass (modulePath md)),
                      c_metadata = \<lparr> md_options = Some os, md_module = md \<rparr> \<rparr>)"
  using assms by (simp add: newModuleFromPath_def split: option.splits)

text \<open>
  C5. In \<^verbatim>\<open>newModuleFromPath_\<close> the descriptor is looked up by type, format and target,
  with no output format. When the options carry a path override, the class is loaded
  from the override, not from the path computed from the descriptor, and the metadata
  given to \<^verbatim>\<open>setMetadata\<close> is the descriptor found together with the options.
\<close>

theorem newModuleFromPath_override:
  assumes "o_modulePath os \<noteq> []"
    and "findModuleByFormat mods ty (o_format os) (o_target os) None = Some md"
  shows "newModuleFromPath mods ty (Some os) =
           Inr \<lparr> c_construction =
                   (case m_instanceFactory md of
                      Some f \<Rightarrow> newModuleFromCustomFactory md f
                    | None \<Rightarrow> ModuleClass (o_modulePath os)),
                 c_metadata = \<lparr> md_options = Some os, md_module = md \<rparr> \<rparr>"
  using assms by (simp add: newModuleFromPath_def)

theorem newModuleFromPath_override_witness:
  "o_modulePath override_options \<noteq> []
   \<and> findModuleByFormat (modules []) Exporter (o_format override_options) (o_target override_options) None
       = Some (exportModules ! 4)
   \<and> modulePath (exportModules ! 4) \<noteq> o_modulePath override_options
   \<and> newModuleFromPath (modules []) Exporter (Some override_options) =
       Inr \<lparr> c_construction = ModuleClass ''lib/custom/MyHtml'',
             c_metadata = \<lparr> md_options = Some override_options, md_module = exportModules ! 4 \<rparr> \<rparr>"
proof -
  have p: "o_modulePath override_options \<noteq> []"
    by (simp add: override_options_def no_options_def)
  have f: "findModuleByFormat (modules []) Exporter (o_format override_options)
             (o_target override_options) None = Some (exportModules ! 4)"
    by (simp add: override_options_def no_options_def findModuleByFormat_def builtin_defs)
  show ?thesis
    using p f newModuleFromPath_override [OF p f]
    by (simp add: override_options_def no_options_def builtin_defs modulePath_def)
qed

text \<open>
  C10. When the options carry a path override, \<^verbatim>\<open>newModuleFromPath_\<close> still looks the
  descriptor up (line 228) and reads \<^verbatim>\<open>moduleMetadata.instanceFactory\<close> with no
  null check: when no descriptor matches, the call fails with the runtime's error on a
  null value, not with the error that names the module.
\<close>

theorem newModuleFromPath_override_null_descriptor:
  assumes "o_modulePath os \<noteq> []"
    and "findModuleByFormat mods ty (o_format os) (o_target os) None = None"
  shows "newModuleFromPath mods ty (Some os) = Inl (TypeError ''moduleMetadata is null'')
         \<and> newModuleFromPath mods ty (Some os)
             \<noteq> Inl (Cannot_load_module_target ty (o_format os) (o_target os))"
  using assms by (simp add: newModuleFromPath_def)

theorem newModuleFromPath_override_null_descriptor_witness:
  "o_modulePath unknown_format_options \<noteq> []
   \<and> findModuleByFormat (modules []) Exporter (o_format unknown_format_options)
        (o_target unknown_format_options) None = None
   \<and> newModuleFromPath (modules []) Exporter (Some unknown_format_options)
       = Inl (TypeError ''moduleMetadata is null'')"
proof -
  have p: "o_modulePath unknown_format_options \<noteq> []"
    by (simp add: unknown_format_options_def no_options_def)
  have f: "findModuleByFormat (modules []) Exporter (o_format unknown_format_options)
             (o_target unknown_format_options) None = None"
    by (simp add: unknown_format_options_def no_options_def findModuleByFormat_def builtin_defs)
  show ?thesis
    using p f newModuleFromPath_override_null_descriptor [OF p f] by simp
qed

section \<open>Properties of the collection\<close>















lemma example_collect: "export_collect example_store no_options = Inr example_queue"
  by (simp add: export_collect_def example_store_def no_options_def plain_item_def
      queueExportItem_def ArrayUtils_unique_def example_queue_def)


text \<open>
  C1. The label ids are queued as recorded, one Label entry for each exported
  label-assignment (lines 365 and 368-370); unlike the attachment ids (line 351) they
  are not deduplicated. In the small store two documents carry the label \<open>t1\<close>, and
  the queue holds the entry of \<open>t1\<close> twice.
\<close>

theorem export_collect_duplicate_label:
  "export_collect example_store no_options = Inr example_queue
   \<and> count_list example_queue (by_id TYPE_TAG ''t1'') = 2
   \<and> \<not> distinct (filter (\<lambda>e. entry_type e = TYPE_TAG) example_queue)"
  using example_collect by (simp add: example_queue_def)

section \<open>Properties of the dispatch\<close>

lemma call_exporter_effect:
  assumes "call_exporter c f r = (t, r')"
  shows "r_calls r' = r_calls r @ [(c, t)] \<and> r_warnings r' = r_warnings r
         \<and> r_resourcePaths r' = r_resourcePaths r"
  using assms by (auto simp: call_exporter_def split: prod.splits)

lemma items_processed_append:
  "items_processed (xs @ ys) = items_processed xs @ items_processed ys"
  by (induction xs rule: items_processed.induct) simp_all

lemma dispatchable_append:
  "dispatchable st ty (es1 @ es2) = dispatchable st ty es1 @ dispatchable st ty es2"
  by (simp add: dispatchable_def)

lemma dispatch_block_append:
  assumes "dispatch_block st ty es1 b1" and "dispatch_block st ty es2 b2"
  shows "dispatch_block st ty (es1 @ es2) (b1 @ b2)"
  using assms
  by (auto simp: dispatch_block_def items_processed_append dispatchable_append
      list_emb_append_mono list_all_iff list_ex_iff)

lemma entries_effect_trans:
  assumes "entries_effect st ty es1 r r1" and "entries_effect st ty es2 r1 r2"
  shows "entries_effect st ty (es1 @ es2) r r2"
proof -
  from assms(1) obtain n1 w1 where
    a: "r_calls r1 = r_calls r @ n1" "r_warnings r1 = r_warnings r @ w1"
       "dispatch_block st ty es1 (map fst n1)"
       "\<forall>c msg. (c, Some msg) \<in> set n1 \<longrightarrow> msg \<in> set w1"
       "\<forall>e w. e \<in> set es1 \<and> entry_type e = ty \<and> skip_warning st e = Some w \<longrightarrow> w \<in> set w1"
    unfolding entries_effect_def by blast
  from assms(2) obtain n2 w2 where
    b: "r_calls r2 = r_calls r1 @ n2" "r_warnings r2 = r_warnings r1 @ w2"
       "dispatch_block st ty es2 (map fst n2)"
       "\<forall>c msg. (c, Some msg) \<in> set n2 \<longrightarrow> msg \<in> set w2"
       "\<forall>e w. e \<in> set es2 \<and> entry_type e = ty \<and> skip_warning st e = Some w \<longrightarrow> w \<in> set w2"
    unfolding entries_effect_def by blast
  have "dispatch_block st ty (es1 @ es2) (map fst (n1 @ n2))"
    using dispatch_block_append [OF a(3) b(3)] by simp
  then show ?thesis
    unfolding entries_effect_def
    apply (intro exI [of _ "n1 @ n2"] exI [of _ "w1 @ w2"])
    using a b by auto
qed

lemma entries_effect_refl_other:
  assumes "entry_type e \<noteq> ty"
  shows "entries_effect st ty [e] r r"
  using assms by (simp add: entries_effect_def dispatch_block_def dispatchable_def)

lemma entries_effect_Nil: "entries_effect st ty [] r r"
  by (simp add: entries_effect_def dispatch_block_def dispatchable_def)

lemma try_block_effect:
  assumes "try_block st ex ty it r = (t, r')"
  shows "\<exists>new. r_calls r' = r_calls r @ new \<and> r_warnings r' = r_warnings r
           \<and> list_all (entry_call ty) (map fst new)
           \<and> subseq (items_processed (map fst new)) [it]
           \<and> list_ex (starts_dispatch st ty it) (map fst new)
           \<and> (\<forall>c msg. (c, Some msg) \<in> set new \<longrightarrow> t = Some msg)"
proof (cases "ty = TYPE_RESOURCE")
  case False
  with assms have "call_exporter (ProcessItem ty it) (e_processItem ex ty it) r = (t, r')"
    by (simp add: try_block_def)
  from call_exporter_effect [OF this] False show ?thesis by simp
next
  case True
  let ?p = "Resource_fullPath st it"
  let ?r1 = "r\<lparr> r_resourcePaths := AList.update (item_id it) ?p (r_resourcePaths r) \<rparr>"
  let ?ctx = "AList.update (item_id it) ?p (r_resourcePaths r)"
  obtain t2 r2 where c1: "call_exporter (UpdateContext ?ctx) (e_updateContext ex ?ctx) ?r1 = (t2, r2)"
    by fastforce
  have m: "map_of ?ctx (item_id it) = Some ?p"
    by (simp add: update_conv')
  note e1 = call_exporter_effect [OF c1]
  show ?thesis
  proof (cases t2)
    case (Some msg)
    with assms True c1 have "t = Some msg" "r' = r2"
      by (simp_all add: try_block_def Let_def)
    with e1 Some True m show ?thesis by simp
  next
    case None
    obtain t3 r3 where c2: "call_exporter (ProcessResource it ?p) (e_processResource ex it ?p) r2 = (t3, r3)"
      by fastforce
    note e2 = call_exporter_effect [OF c2]
    show ?thesis
    proof (cases t3)
      case (Some msg)
      with assms True c1 c2 None have "t = Some msg" "r' = r3"
        by (simp_all add: try_block_def Let_def)
      with e1 e2 Some None True m show ?thesis by simp
    next
      case n3: None
      with assms True c1 c2 None
      have c3: "call_exporter (ProcessItem ty it) (e_processItem ex ty it) r3 = (t, r')"
        by (simp add: try_block_def Let_def)
      note e3 = call_exporter_effect [OF c3]
      from e1 e2 e3 None n3 True m show ?thesis by simp
    qed
  qed
qed

lemma process_loaded_effect:
  assumes "resolve st e = Some it"
  shows "entries_effect st (entry_type e) [e] r (process_loaded st ex (entry_type e) it r)"
proof (cases "encrypted it")
  case True
  then show ?thesis
    using assms
    by (simp add: entries_effect_def process_loaded_def encrypted_def push_warning_def
        dispatch_block_def dispatchable_def skip_warning_def)
next
  case False
  obtain t r' where tb: "try_block st ex (entry_type e) it r = (t, r')"
    by fastforce
  from try_block_effect [OF tb] obtain new where
    n: "r_calls r' = r_calls r @ new" "r_warnings r' = r_warnings r"
       "list_all (entry_call (entry_type e)) (map fst new)"
       "subseq (items_processed (map fst new)) [it]"
       "list_ex (starts_dispatch st (entry_type e) it) (map fst new)"
       "\<forall>c msg. (c, Some msg) \<in> set new \<longrightarrow> t = Some msg"
    by blast
  have d: "dispatchable st (entry_type e) [e] = [it]"
    using assms False by (simp add: dispatchable_def)
  have s: "skip_warning st e = None"
    using assms False by (simp add: skip_warning_def)
  show ?thesis
  proof (cases t)
    case None
    with tb False have "process_loaded st ex (entry_type e) it r = r'"
      by (simp add: process_loaded_def encrypted_def)
    with n None d s show ?thesis
      unfolding entries_effect_def
      by (intro exI [of _ new] exI [of _ "[]"]) (simp add: dispatch_block_def)
  next
    case (Some msg)
    with tb False have "process_loaded st ex (entry_type e) it r = push_warning msg r'"
      by (simp add: process_loaded_def encrypted_def)
    with n Some d s show ?thesis
      unfolding entries_effect_def
      by (intro exI [of _ new] exI [of _ "[msg]"]) (simp add: dispatch_block_def push_warning_def)
  qed
qed

lemma process_entry_effect:
  "entries_effect st (entry_type e) [e] r (process_entry st ex e r)"
proof (cases "resolve st e")
  case (Some it)
  then have "process_entry st ex e r = process_loaded st ex (entry_type e) it r"
    by (auto simp: process_entry_def resolve_def split: itemOrId.splits)
  with process_loaded_effect [OF Some] show ?thesis by simp
next
  case None
  then obtain i where i: "entry_itemOrId e = Id i" "ItemClass_load st (entry_type e) i = None"
    by (auto simp: resolve_def split: itemOrId.splits)
  then show ?thesis
    using None
    by (simp add: process_entry_def entries_effect_def push_warning_def dispatch_block_def
        dispatchable_def skip_warning_def)
qed

lemma process_entries_effect:
  "entries_effect st ty es r (process_entries st ex ty es r)"
proof (induction es arbitrary: r)
  case Nil
  show ?case by (simp add: entries_effect_Nil)
next
  case (Cons e es)
  show ?case
  proof (cases "entry_type e = ty")
    case False
    then have a: "entries_effect st ty [e] r r"
      by (rule entries_effect_refl_other)
    have b: "entries_effect st ty es r (process_entries st ex ty es r)"
      by (rule Cons.IH)
    from entries_effect_trans [OF a b] False show ?thesis by simp
  next
    case True
    have a: "entries_effect st ty [e] r (process_entry st ex e r)"
      using process_entry_effect [of st e r ex] True by simp
    have b: "entries_effect st ty es (process_entry st ex e r)
               (process_entries st ex ty es (process_entry st ex e r))"
      by (rule Cons.IH)
    from entries_effect_trans [OF a b] True show ?thesis by simp
  qed
qed


lemma dispatch_types_effect:
  assumes "dispatch_types st ex queue tys r = (None, r')"
  shows "\<exists>bs new ws.
           length bs = length tys
         \<and> r_calls r' = r_calls r @ new
         \<and> map fst new = dispatch_log queue tys bs
         \<and> dispatch_blocks st queue tys bs
         \<and> r_warnings r' = r_warnings r @ ws
         \<and> (\<forall>c msg. (c, Some msg) \<in> set new \<longrightarrow> msg \<in> set ws)
         \<and> (\<forall>e w. e \<in> set queue \<and> entry_type e \<in> set tys \<and> skip_warning st e = Some w
                \<longrightarrow> w \<in> set ws)"
  using assms
proof (induction tys arbitrary: r)
  case Nil
  then show ?case by (simp add: dispatch_blocks_def)
next
  case (Cons ty tys)
  let ?c = "PrepareForProcessingItemType ty queue"
  obtain t1 r1 where p: "call_exporter ?c (e_prepareForProcessingItemType ex ty queue) r = (t1, r1)"
    by fastforce
  with Cons.prems have t1: "t1 = None"
    by (cases t1) simp_all
  let ?r2 = "process_entries st ex ty queue r1"
  from Cons.prems p t1 have d: "dispatch_types st ex queue tys ?r2 = (None, r')"
    by simp
  from call_exporter_effect [OF p] t1
  have e1: "r_calls r1 = r_calls r @ [(?c, None)]" "r_warnings r1 = r_warnings r"
    by simp_all
  from process_entries_effect [of st ty queue r1 ex] obtain n1 w1 where
    e2: "r_calls ?r2 = r_calls r1 @ n1" "r_warnings ?r2 = r_warnings r1 @ w1"
        "dispatch_block st ty queue (map fst n1)"
        "\<forall>c msg. (c, Some msg) \<in> set n1 \<longrightarrow> msg \<in> set w1"
        "\<forall>e w. e \<in> set queue \<and> entry_type e = ty \<and> skip_warning st e = Some w \<longrightarrow> w \<in> set w1"
    unfolding entries_effect_def by blast
  from Cons.IH [OF d] obtain bs n2 w2 where
    e3: "length bs = length tys" "r_calls r' = r_calls ?r2 @ n2"
        "map fst n2 = dispatch_log queue tys bs"
        "dispatch_blocks st queue tys bs"
        "r_warnings r' = r_warnings ?r2 @ w2"
        "\<forall>c msg. (c, Some msg) \<in> set n2 \<longrightarrow> msg \<in> set w2"
        "\<forall>e w. e \<in> set queue \<and> entry_type e \<in> set tys \<and> skip_warning st e = Some w \<longrightarrow> w \<in> set w2"
    by blast
  show ?case
    apply (intro exI [of _ "map fst n1 # bs"] exI [of _ "(?c, None) # n1 @ n2"] exI [of _ "w1 @ w2"])
    using e1 e2 e3 by (auto simp: dispatch_blocks_def)
qed








lemma export_Inr:
  assumes "export st mods instantiate ex opts = (Inr result, log)"
  shows "\<exists>queue c s0 r1 r2 r3.
           export_collect st (export_defaults opts) = Inr queue
         \<and> newModuleFromPath mods Exporter (Some (export_defaults opts)) = Inr c
         \<and> instantiate c = Inr s0
         \<and> call_exporter
               (Init (exportPath (export_defaults opts)) (export_defaults opts))
               (e_init ex (exportPath (export_defaults opts)) (export_defaults opts))
               \<lparr> r_exporter = s0, r_calls = [], r_warnings = [], r_resourcePaths = [] \<rparr> = (None, r1)
         \<and> dispatch_types st ex queue typeOrder r1 = (None, r2)
         \<and> call_exporter Close (e_close ex) r2 = (None, r3)
         \<and> result = \<lparr> warnings = r_warnings r3 \<rparr> \<and> log = r_calls r3"
  using assms
  by (auto simp: export_def Let_def split: sum.splits prod.splits option.splits)


lemma entry_type_in_typeOrder: "ty \<in> set typeOrder"
  by (cases ty) (simp_all add: typeOrder_def)

lemma export_run_effect:
  assumes "export st mods instantiate ex opts = (Inr result, log)"
  shows "\<exists>queue bs.
           export_collect st (export_defaults opts) = Inr queue
         \<and> map fst log =
             Init (exportPath (export_defaults opts)) (export_defaults opts)
             # dispatch_log queue typeOrder bs @ [Close]
         \<and> dispatch_blocks st queue typeOrder bs
         \<and> (\<forall>c msg. (c, Some msg) \<in> set log \<longrightarrow> msg \<in> set (warnings result))
         \<and> (\<forall>e w. e \<in> set queue \<and> skip_warning st e = Some w \<longrightarrow> w \<in> set (warnings result))
         \<and> last log = (Close, None)"
proof -
  let ?opts = "export_defaults opts"
  let ?i = "Init (exportPath ?opts) ?opts"
  from export_Inr [OF assms] obtain queue c s0 r1 r2 r3 where
    q: "export_collect st ?opts = Inr queue"
    and i: "call_exporter ?i (e_init ex (exportPath ?opts) ?opts)
              \<lparr> r_exporter = s0, r_calls = [], r_warnings = [], r_resourcePaths = [] \<rparr> = (None, r1)"
    and d: "dispatch_types st ex queue typeOrder r1 = (None, r2)"
    and cl: "call_exporter Close (e_close ex) r2 = (None, r3)"
    and res: "result = \<lparr> warnings = r_warnings r3 \<rparr>" "log = r_calls r3"
    by blast
  from call_exporter_effect [OF i] have e1: "r_calls r1 = [(?i, None)]" "r_warnings r1 = []"
    by simp_all
  from dispatch_types_effect [OF d] obtain bs new ws where
    e2: "r_calls r2 = r_calls r1 @ new" "map fst new = dispatch_log queue typeOrder bs"
        "dispatch_blocks st queue typeOrder bs"
        "r_warnings r2 = r_warnings r1 @ ws"
        "\<forall>c msg. (c, Some msg) \<in> set new \<longrightarrow> msg \<in> set ws"
        "\<forall>e w. e \<in> set queue \<and> entry_type e \<in> set typeOrder \<and> skip_warning st e = Some w
            \<longrightarrow> w \<in> set ws"
    by blast
  from call_exporter_effect [OF cl] have e3: "r_calls r3 = r_calls r2 @ [(Close, None)]"
    "r_warnings r3 = r_warnings r2"
    by simp_all
  have l: "log = (?i, None) # new @ [(Close, None)]" and w: "warnings result = ws"
    using res e1 e2 e3 by simp_all
  have "\<forall>c msg. (c, Some msg) \<in> set log \<longrightarrow> msg \<in> set (warnings result)"
    using e2(5) by (auto simp: l w)
  moreover have "\<forall>e w. e \<in> set queue \<and> skip_warning st e = Some w \<longrightarrow> w \<in> set (warnings result)"
    using e2(6) entry_type_in_typeOrder by (auto simp: w)
  moreover have "map fst log = ?i # dispatch_log queue typeOrder bs @ [Close]"
    using e2(2) by (simp add: l)
  moreover have "last log = (Close, None)"
    by (simp add: l)
  ultimately show ?thesis
    using q e2(3) by (intro exI [of _ queue] exI [of _ bs]) simp
qed


lemma entry_call_type: "entry_call ty c \<Longrightarrow> entry_call ty' c \<Longrightarrow> ty = ty'"
  by (cases c) auto

lemma dispatch_block_other:
  assumes "dispatch_block st ty queue b" and "ty \<noteq> ty'"
  shows "list_all (\<lambda>c. \<not> entry_call ty' c) b"
  using assms by (auto simp: dispatch_block_def list_all_iff dest: entry_call_type)

text \<open>
  C3. In a run that returns, the exporter is called in this order: \<^verbatim>\<open>init\<close>; then
  for each type in the order Container, Attachment, Document, Label, LabelAssignment
  one \<^verbatim>\<open>prepareForProcessingItemType\<close> with the whole queue, followed by the calls
  that dispatch the entries of that type and of no other, the items processed being in
  queue order; then \<^verbatim>\<open>close\<close>. So every Attachment is dispatched before any
  Document, and every Label before any LabelAssignment.
\<close>

theorem export_dispatch_order:
  assumes "export st mods instantiate ex opts = (Inr result, log)"
  shows "(\<exists>queue b1 b2 b3 b4 b5.
           export_collect st (export_defaults opts) = Inr queue
         \<and> map fst log =
             Init (exportPath (export_defaults opts)) (export_defaults opts)
             # PrepareForProcessingItemType TYPE_FOLDER queue # b1
             @ PrepareForProcessingItemType TYPE_RESOURCE queue # b2
             @ PrepareForProcessingItemType TYPE_NOTE queue # b3
             @ PrepareForProcessingItemType TYPE_TAG queue # b4
             @ PrepareForProcessingItemType TYPE_NOTE_TAG queue # b5
             @ [Close]
         \<and> dispatch_block st TYPE_FOLDER queue b1
         \<and> dispatch_block st TYPE_RESOURCE queue b2
         \<and> dispatch_block st TYPE_NOTE queue b3
         \<and> dispatch_block st TYPE_TAG queue b4
         \<and> dispatch_block st TYPE_NOTE_TAG queue b5)
       \<and> (\<exists>before after.
             map fst log = before @ after
           \<and> list_all (\<lambda>c. \<not> entry_call TYPE_NOTE c) before
           \<and> list_all (\<lambda>c. \<not> entry_call TYPE_RESOURCE c) after)
       \<and> (\<exists>before after.
             map fst log = before @ after
           \<and> list_all (\<lambda>c. \<not> entry_call TYPE_NOTE_TAG c) before
           \<and> list_all (\<lambda>c. \<not> entry_call TYPE_TAG c) after)"
proof -
  let ?i = "Init (exportPath (export_defaults opts)) (export_defaults opts)"
  from export_run_effect [OF assms] obtain queue bs where
    q: "export_collect st (export_defaults opts) = Inr queue"
    and l: "map fst log = ?i # dispatch_log queue typeOrder bs @ [Close]"
    and b: "dispatch_blocks st queue typeOrder bs"
    by (elim exE conjE) (rule that)
  from b obtain b1 b2 b3 b4 b5 where
    bs: "bs = [b1, b2, b3, b4, b5]"
    and d: "dispatch_block st TYPE_FOLDER queue b1" "dispatch_block st TYPE_RESOURCE queue b2"
       "dispatch_block st TYPE_NOTE queue b3" "dispatch_block st TYPE_TAG queue b4"
       "dispatch_block st TYPE_NOTE_TAG queue b5"
    by (auto simp: dispatch_blocks_def typeOrder_def list_all2_Cons1)
  let ?pF = "PrepareForProcessingItemType TYPE_FOLDER queue"
  let ?pR = "PrepareForProcessingItemType TYPE_RESOURCE queue"
  let ?pN = "PrepareForProcessingItemType TYPE_NOTE queue"
  let ?pT = "PrepareForProcessingItemType TYPE_TAG queue"
  let ?pA = "PrepareForProcessingItemType TYPE_NOTE_TAG queue"
  from l have m: "map fst log = ?i # ?pF # b1 @ ?pR # b2 @ ?pN # b3 @ ?pT # b4 @ ?pA # b5 @ [Close]"
    by (simp add: bs typeOrder_def)
  have blocks: "\<exists>queue b1 b2 b3 b4 b5.
           export_collect st (export_defaults opts) = Inr queue
         \<and> map fst log =
             ?i # PrepareForProcessingItemType TYPE_FOLDER queue # b1
             @ PrepareForProcessingItemType TYPE_RESOURCE queue # b2
             @ PrepareForProcessingItemType TYPE_NOTE queue # b3
             @ PrepareForProcessingItemType TYPE_TAG queue # b4
             @ PrepareForProcessingItemType TYPE_NOTE_TAG queue # b5
             @ [Close]
         \<and> dispatch_block st TYPE_FOLDER queue b1
         \<and> dispatch_block st TYPE_RESOURCE queue b2
         \<and> dispatch_block st TYPE_NOTE queue b3
         \<and> dispatch_block st TYPE_TAG queue b4
         \<and> dispatch_block st TYPE_NOTE_TAG queue b5"
    using q m d
    by (intro exI [of _ queue] exI [of _ b1] exI [of _ b2] exI [of _ b3] exI [of _ b4]
        exI [of _ b5]) simp
  have attachments: "\<exists>before after.
             map fst log = before @ after
           \<and> list_all (\<lambda>c. \<not> entry_call TYPE_NOTE c) before
           \<and> list_all (\<lambda>c. \<not> entry_call TYPE_RESOURCE c) after"
    using m dispatch_block_other [OF d(1), of TYPE_NOTE] dispatch_block_other [OF d(2), of TYPE_NOTE]
      dispatch_block_other [OF d(3), of TYPE_RESOURCE] dispatch_block_other [OF d(4), of TYPE_RESOURCE]
      dispatch_block_other [OF d(5), of TYPE_RESOURCE]
    by (intro exI [of _ "?i # ?pF # b1 @ ?pR # b2"]
        exI [of _ "?pN # b3 @ ?pT # b4 @ ?pA # b5 @ [Close]"]) simp
  have labels: "\<exists>before after.
             map fst log = before @ after
           \<and> list_all (\<lambda>c. \<not> entry_call TYPE_NOTE_TAG c) before
           \<and> list_all (\<lambda>c. \<not> entry_call TYPE_TAG c) after"
    using m dispatch_block_other [OF d(1), of TYPE_NOTE_TAG] dispatch_block_other [OF d(2), of TYPE_NOTE_TAG]
      dispatch_block_other [OF d(3), of TYPE_NOTE_TAG] dispatch_block_other [OF d(4), of TYPE_NOTE_TAG]
      dispatch_block_other [OF d(5), of TYPE_TAG]
    by (intro exI [of _ "?i # ?pF # b1 @ ?pR # b2 @ ?pN # b3 @ ?pT # b4"]
        exI [of _ "?pA # b5 @ [Close]"]) simp
  from blocks attachments labels show ?thesis
    by (intro conjI)
qed














subsection \<open>The run on the small store\<close>

lemma example_collect': "export_collect example_store (export_defaults example_options) = Inr example_queue"
  by (simp add: export_collect_def example_store_def no_options_def plain_item_def
      queueExportItem_def ArrayUtils_unique_def example_queue_def example_options_def
      export_defaults_def)

lemma example_resolve:
  "newModuleFromPath (modules []) Exporter (Some (export_defaults example_options)) = Inr example_converter"
  by (simp add: newModuleFromPath_def findModuleByFormat_def builtin_defs example_options_def
      no_options_def export_defaults_def example_converter_def)

lemma example_exporter_simps:
  "e_init example_exporter p os s = (None, [])"
  "e_prepareForProcessingItemType example_exporter ty q s = (None, s)"
  "e_updateContext example_exporter paths s = (None, s)"
  "e_processResource example_exporter it rp s = (None, s)"
  "e_processItem example_exporter ty it s =
     (if item_id it = ''n2'' then (Some ''disk full'', s) else (None, s @ [item_id it]))"
  "e_close example_exporter s = (None, s)"
  by (simp_all add: example_exporter_def)

lemma example_store_simps:
  "ItemClass_load example_store TYPE_FOLDER ''f1'' = Some (plain_item ''f1'' ''Inbox'' [])"
  "ItemClass_load example_store TYPE_RESOURCE ''r1'' = Some (plain_item ''r1'' ''photo'' [])"
  "ItemClass_load example_store TYPE_RESOURCE ''r2''
     = Some ((plain_item ''r2'' [] [])\<lparr> encryption_blob_encrypted := True \<rparr>)"
  "ItemClass_load example_store TYPE_RESOURCE ''r9'' = None"
  "ItemClass_load example_store TYPE_TAG ''t1'' = Some (plain_item ''t1'' ''todo'' [])"
  "ItemClass_load example_store TYPE_NOTE_TAG ''a1'' = Some (plain_item ''a1'' [] [])"
  "ItemClass_load example_store TYPE_NOTE_TAG ''a2'' = Some (plain_item ''a2'' [] [])"
  "Resource_fullPath example_store it = ''/res/'' @ item_id it"
  by (simp_all add: example_store_def)

lemma example_dispatch:
  "dispatch_types example_store example_exporter example_queue typeOrder
     \<lparr> r_exporter = [], r_calls = cs, r_warnings = [], r_resourcePaths = [] \<rparr>
   = (None, \<lparr> r_exporter = [''f1'', ''r1'', ''n1'', ''t1'', ''t1'', ''a1'', ''a2''],
              r_calls = cs @ butlast (tl example_log),
              r_warnings = example_warnings, r_resourcePaths = [(''r1'', ''/res/r1'')] \<rparr>)"
  by (simp add: typeOrder_def call_exporter_def example_exporter_simps example_store_simps
      process_entry_def process_loaded_def try_block_def push_warning_def Let_def
      example_log_def example_warnings_def example_queue_def plain_item_def)

lemma example_run:
  "export example_store (modules []) example_instantiate example_exporter example_options
     = (Inr \<lparr> warnings = example_warnings \<rparr>, example_log)"
  by (simp add: export_def example_collect' example_resolve example_instantiate_def
      call_exporter_def example_dispatch example_exporter_simps)
     (simp add: example_log_def exportPath_def example_options_def
      export_defaults_def no_options_def)


theorem export_dispatch_order_witness:
  "export example_store (modules []) example_instantiate example_exporter example_options
     = (Inr \<lparr> warnings = example_warnings \<rparr>, example_log)
   \<and> (\<exists>queue b1 b2 b3 b4 b5.
           export_collect example_store (export_defaults example_options) = Inr queue
         \<and> map fst example_log =
             Init (exportPath (export_defaults example_options)) (export_defaults example_options)
             # PrepareForProcessingItemType TYPE_FOLDER queue # b1
             @ PrepareForProcessingItemType TYPE_RESOURCE queue # b2
             @ PrepareForProcessingItemType TYPE_NOTE queue # b3
             @ PrepareForProcessingItemType TYPE_TAG queue # b4
             @ PrepareForProcessingItemType TYPE_NOTE_TAG queue # b5
             @ [Close]
         \<and> dispatch_block example_store TYPE_FOLDER queue b1
         \<and> dispatch_block example_store TYPE_RESOURCE queue b2
         \<and> dispatch_block example_store TYPE_NOTE queue b3
         \<and> dispatch_block example_store TYPE_TAG queue b4
         \<and> dispatch_block example_store TYPE_NOTE_TAG queue b5)
   \<and> (\<exists>before after.
         map fst example_log = before @ after
       \<and> list_all (\<lambda>c. \<not> entry_call TYPE_NOTE c) before
       \<and> list_all (\<lambda>c. \<not> entry_call TYPE_RESOURCE c) after)"
proof -
  note t = export_dispatch_order [OF example_run]
  from t have a: "\<exists>queue b1 b2 b3 b4 b5.
           export_collect example_store (export_defaults example_options) = Inr queue
         \<and> map fst example_log =
             Init (exportPath (export_defaults example_options)) (export_defaults example_options)
             # PrepareForProcessingItemType TYPE_FOLDER queue # b1
             @ PrepareForProcessingItemType TYPE_RESOURCE queue # b2
             @ PrepareForProcessingItemType TYPE_NOTE queue # b3
             @ PrepareForProcessingItemType TYPE_TAG queue # b4
             @ PrepareForProcessingItemType TYPE_NOTE_TAG queue # b5
             @ [Close]
         \<and> dispatch_block example_store TYPE_FOLDER queue b1
         \<and> dispatch_block example_store TYPE_RESOURCE queue b2
         \<and> dispatch_block example_store TYPE_NOTE queue b3
         \<and> dispatch_block example_store TYPE_TAG queue b4
         \<and> dispatch_block example_store TYPE_NOTE_TAG queue b5"
    by (rule conjunct1)
  from t have b: "\<exists>before after.
         map fst example_log = before @ after
       \<and> list_all (\<lambda>c. \<not> entry_call TYPE_NOTE c) before
       \<and> list_all (\<lambda>c. \<not> entry_call TYPE_RESOURCE c) after"
    by (rule conjunct2 [THEN conjunct1])
  from example_run a b show ?thesis
    by (intro conjI)
qed



section \<open>Properties of the import\<close>

lemma import_options_Inl_iff:
  "(\<exists>e. import_options st mods opts0 = Inl e) \<longleftrightarrow>
     ((o_format opts0 = None \<or> o_format opts0 = Some ''auto'')
        \<and> moduleByFileExtension (String_toLowerCase st) mods Importer (fileExtension st (o_path opts0)) = None)
     \<or> (o_destinationFolderId opts0 \<noteq> [] \<and> Folder_load st (o_destinationFolderId opts0) = None)"
  by (auto simp: import_options_def import_format_def import_defaults_def import_destination_def
      split: option.splits sum.splits if_splits)

lemma import_options_errors:
  "((o_format opts0 = None \<or> o_format opts0 = Some ''auto'')
      \<and> moduleByFileExtension (String_toLowerCase st) mods Importer (fileExtension st (o_path opts0)) = None
    \<longrightarrow> import_options st mods opts0 = Inl (Please_specify_import_format (o_path opts0)))
   \<and> (\<not> ((o_format opts0 = None \<or> o_format opts0 = Some ''auto'')
            \<and> moduleByFileExtension (String_toLowerCase st) mods Importer (fileExtension st (o_path opts0)) = None)
        \<and> o_destinationFolderId opts0 \<noteq> [] \<and> Folder_load st (o_destinationFolderId opts0) = None
    \<longrightarrow> import_options st mods opts0 = Inl (Cannot_find (o_destinationFolderId opts0)))"
  by (auto simp: import_options_def import_format_def import_defaults_def import_destination_def
      split: option.splits sum.splits if_splits)

text \<open>
  C6. \<^verbatim>\<open>import(options)\<close> throws before any call on a converter exactly when: the
  source path does not exist; or the format is \<open>auto\<close> (the default) and no importer
  lists the extension of the path; or a destination container id is given and does not
  load; or no importer is resolved and built for the resulting options (no descriptor
  matches, or loading the class throws). The first three throw the errors that name the
  path, the path, and the id. When none of this happens \<^verbatim>\<open>init\<close> is called
  once, first. When it throws, the import throws what it threw and \<^verbatim>\<open>exec\<close> is
  not called. When it returns, \<^verbatim>\<open>exec\<close> is called once, with an empty result;
  when \<^verbatim>\<open>exec\<close> throws, the import throws what it threw, and when it returns, the
  import returns its result.
\<close>

theorem import_throws_before_converter_call:
  "((\<exists>e. import st mods instantiate imp opts0 = (Inl e, [])) \<longleftrightarrow>
      \<not> fsDriver_exists st (o_path opts0)
      \<or> ((o_format opts0 = None \<or> o_format opts0 = Some ''auto'')
           \<and> moduleByFileExtension (String_toLowerCase st) mods Importer (fileExtension st (o_path opts0)) = None)
      \<or> (o_destinationFolderId opts0 \<noteq> [] \<and> Folder_load st (o_destinationFolderId opts0) = None)
      \<or> (\<exists>opts e. import_options st mods opts0 = Inr opts
                  \<and> import_importer mods instantiate opts = Inl e))
   \<and> (\<not> fsDriver_exists st (o_path opts0) \<longrightarrow>
        import st mods instantiate imp opts0 = (Inl (Cannot_find (o_path opts0)), []))
   \<and> (fsDriver_exists st (o_path opts0)
        \<and> (o_format opts0 = None \<or> o_format opts0 = Some ''auto'')
        \<and> moduleByFileExtension (String_toLowerCase st) mods Importer (fileExtension st (o_path opts0)) = None \<longrightarrow>
        import st mods instantiate imp opts0 = (Inl (Please_specify_import_format (o_path opts0)), []))
   \<and> (fsDriver_exists st (o_path opts0)
        \<and> \<not> ((o_format opts0 = None \<or> o_format opts0 = Some ''auto'')
               \<and> moduleByFileExtension (String_toLowerCase st) mods Importer (fileExtension st (o_path opts0)) = None)
        \<and> o_destinationFolderId opts0 \<noteq> [] \<and> Folder_load st (o_destinationFolderId opts0) = None \<longrightarrow>
        import st mods instantiate imp opts0 = (Inl (Cannot_find (o_destinationFolderId opts0)), []))
   \<and> (\<forall>opts s0 s1 s2 result.
         fsDriver_exists st (o_path opts0)
         \<and> import_options st mods opts0 = Inr opts
         \<and> import_importer mods instantiate opts = Inr s0
         \<and> i_init imp (o_path opts) opts s0 = (None, s1)
         \<and> i_exec imp \<lparr> warnings = [] \<rparr> s1 = (Inr result, s2) \<longrightarrow>
         import st mods instantiate imp opts0 =
           (Inr result,
            [(Importer_init (o_path opts) opts, None), (Importer_exec \<lparr> warnings = [] \<rparr>, None)]))
   \<and> (\<forall>opts s0 s1 msg.
         fsDriver_exists st (o_path opts0)
         \<and> import_options st mods opts0 = Inr opts
         \<and> import_importer mods instantiate opts = Inr s0
         \<and> i_init imp (o_path opts) opts s0 = (Some msg, s1) \<longrightarrow>
         import st mods instantiate imp opts0 =
           (Inl (Thrown msg), [(Importer_init (o_path opts) opts, Some msg)]))
   \<and> (\<forall>opts s0 s1 s2 msg.
         fsDriver_exists st (o_path opts0)
         \<and> import_options st mods opts0 = Inr opts
         \<and> import_importer mods instantiate opts = Inr s0
         \<and> i_init imp (o_path opts) opts s0 = (None, s1)
         \<and> i_exec imp \<lparr> warnings = [] \<rparr> s1 = (Inl msg, s2) \<longrightarrow>
         import st mods instantiate imp opts0 =
           (Inl (Thrown msg),
            [(Importer_init (o_path opts) opts, None),
             (Importer_exec \<lparr> warnings = [] \<rparr>, Some msg)]))"
proof -
  let ?B = "(o_format opts0 = None \<or> o_format opts0 = Some ''auto'')
              \<and> moduleByFileExtension (String_toLowerCase st) mods Importer (fileExtension st (o_path opts0)) = None"
  let ?C = "o_destinationFolderId opts0 \<noteq> [] \<and> Folder_load st (o_destinationFolderId opts0) = None"
  note oi = import_options_Inl_iff [where st = st and mods = mods and ?opts0.0 = opts0]
  note oe = import_options_errors [where st = st and mods = mods and ?opts0.0 = opts0]
  have 1: "(\<exists>e. import st mods instantiate imp opts0 = (Inl e, [])) \<longleftrightarrow>
      \<not> fsDriver_exists st (o_path opts0) \<or> ?B \<or> ?C
      \<or> (\<exists>opts e. import_options st mods opts0 = Inr opts
                  \<and> import_importer mods instantiate opts = Inl e)"
  proof (cases "fsDriver_exists st (o_path opts0)")
    case False
    then show ?thesis by (simp add: import_def)
  next
    case True
    show ?thesis
    proof (cases "import_options st mods opts0")
      case (Inl e)
      with oi have "?B \<or> ?C" by blast
      with True Inl show ?thesis by (simp add: import_def)
    next
      case (Inr opts)
      with oi have n: "\<not> (?B \<or> ?C)" by simp
      show ?thesis
      proof (cases "import_importer mods instantiate opts")
        case (Inl e)
        with True Inr show ?thesis by (auto simp: import_def)
      next
        case r: (Inr s0)
        with True Inr n show ?thesis
          by (simp add: import_def split: prod.splits option.splits sum.splits)
      qed
    qed
  qed
  have 2: "\<not> fsDriver_exists st (o_path opts0) \<longrightarrow>
        import st mods instantiate imp opts0 = (Inl (Cannot_find (o_path opts0)), [])"
    by (simp add: import_def)
  have 3: "fsDriver_exists st (o_path opts0) \<and> ?B \<longrightarrow>
        import st mods instantiate imp opts0 = (Inl (Please_specify_import_format (o_path opts0)), [])"
    using oe by (simp add: import_def)
  have 4: "fsDriver_exists st (o_path opts0) \<and> \<not> ?B \<and> ?C \<longrightarrow>
        import st mods instantiate imp opts0 = (Inl (Cannot_find (o_destinationFolderId opts0)), [])"
    using oe by (simp add: import_def)
  have 5: "\<forall>opts s0 s1 s2 result.
         fsDriver_exists st (o_path opts0)
         \<and> import_options st mods opts0 = Inr opts
         \<and> import_importer mods instantiate opts = Inr s0
         \<and> i_init imp (o_path opts) opts s0 = (None, s1)
         \<and> i_exec imp \<lparr> warnings = [] \<rparr> s1 = (Inr result, s2) \<longrightarrow>
         import st mods instantiate imp opts0 =
           (Inr result,
            [(Importer_init (o_path opts) opts, None), (Importer_exec \<lparr> warnings = [] \<rparr>, None)])"
    by (simp add: import_def)
  have 6: "\<forall>opts s0 s1 msg.
         fsDriver_exists st (o_path opts0)
         \<and> import_options st mods opts0 = Inr opts
         \<and> import_importer mods instantiate opts = Inr s0
         \<and> i_init imp (o_path opts) opts s0 = (Some msg, s1) \<longrightarrow>
         import st mods instantiate imp opts0 =
           (Inl (Thrown msg), [(Importer_init (o_path opts) opts, Some msg)])"
    by (simp add: import_def)
  have 7: "\<forall>opts s0 s1 s2 msg.
         fsDriver_exists st (o_path opts0)
         \<and> import_options st mods opts0 = Inr opts
         \<and> import_importer mods instantiate opts = Inr s0
         \<and> i_init imp (o_path opts) opts s0 = (None, s1)
         \<and> i_exec imp \<lparr> warnings = [] \<rparr> s1 = (Inl msg, s2) \<longrightarrow>
         import st mods instantiate imp opts0 =
           (Inl (Thrown msg),
            [(Importer_init (o_path opts) opts, None),
             (Importer_exec \<lparr> warnings = [] \<rparr>, Some msg)])"
    by (simp add: import_def)
  from 1 2 3 4 5 6 7 show ?thesis
    by (intro conjI)
qed


lemma example_store_import_simps:
  "fsDriver_exists example_store ''/in/a.md''"
  "fsDriver_exists example_store ''/in/b.docx''"
  "fileExtension example_store ''/in/a.md'' = ''md''"
  "fileExtension example_store ''/in/b.docx'' = ''docx''"
  by (simp_all add: example_store_def)

lemma import_unknown_format_run:
  "import example_store (modules []) example_instantiate example_importer import_unknown_format_options
     = (Inl (Cannot_load_module_output Importer (Some ''docx'') Markdown), [])"
  by (simp add: import_def import_options_def import_defaults_def import_format_def
      import_destination_def import_importer_def newModuleByFormat_def findModuleByFormat_def
      builtin_defs import_unknown_format_options_def no_options_def example_store_import_simps)

text \<open>
  An import of an existing file with a format that no importer has, and no destination:
  none of the first three conditions holds, and the call throws before any call on a
  converter.
\<close>

theorem import_unknown_format_counterexample:
  "import example_store (modules []) example_instantiate example_importer import_unknown_format_options
     = (Inl (Cannot_load_module_output Importer (Some ''docx'') Markdown), [])
   \<and> fsDriver_exists example_store (o_path import_unknown_format_options)
   \<and> o_format import_unknown_format_options = Some ''docx''
   \<and> o_destinationFolderId import_unknown_format_options = []
   \<and> \<not> ((\<exists>e. import example_store (modules []) example_instantiate example_importer
                 import_unknown_format_options = (Inl e, []))
        \<longleftrightarrow>
          (\<not> fsDriver_exists example_store (o_path import_unknown_format_options)
           \<or> ((o_format import_unknown_format_options = None
                 \<or> o_format import_unknown_format_options = Some ''auto'')
                \<and> moduleByFileExtension (String_toLowerCase example_store) (modules []) Importer
                     (fileExtension example_store (o_path import_unknown_format_options)) = None)
           \<or> (o_destinationFolderId import_unknown_format_options \<noteq> []
                \<and> Folder_load example_store (o_destinationFolderId import_unknown_format_options) = None)))"
  by (simp add: import_unknown_format_run)
     (simp add: import_unknown_format_options_def no_options_def example_store_import_simps)

theorem import_throws_before_converter_call_witness:
  "fsDriver_exists example_store (o_path import_md_options)
   \<and> import_options example_store (modules []) import_md_options
       = Inr (import_md_options\<lparr> o_format := Some ''md'' \<rparr>)
   \<and> import_importer (modules []) example_instantiate (import_md_options\<lparr> o_format := Some ''md'' \<rparr>)
       = Inr []
   \<and> import example_store (modules []) example_instantiate example_importer import_md_options
       = (Inr \<lparr> warnings = [''1 note skipped''] \<rparr>,
          [(Importer_init ''/in/a.md'' (import_md_options\<lparr> o_format := Some ''md'' \<rparr>), None),
           (Importer_exec \<lparr> warnings = [] \<rparr>, None)])
   \<and> fsDriver_exists example_store (o_path import_docx_options)
   \<and> o_format import_docx_options = None
   \<and> moduleByFileExtension (String_toLowerCase example_store) (modules []) Importer
        (fileExtension example_store (o_path import_docx_options)) = None
   \<and> import example_store (modules []) example_instantiate example_importer import_docx_options
       = (Inl (Please_specify_import_format ''/in/b.docx''), [])
   \<and> import example_store (modules []) example_instantiate failing_init_importer import_md_options
       = (Inl (Thrown ''not a file''),
          [(Importer_init ''/in/a.md'' (import_md_options\<lparr> o_format := Some ''md'' \<rparr>),
            Some ''not a file'')])
   \<and> import example_store (modules []) example_instantiate failing_exec_importer import_md_options
       = (Inl (Thrown ''bad front matter''),
          [(Importer_init ''/in/a.md'' (import_md_options\<lparr> o_format := Some ''md'' \<rparr>), None),
           (Importer_exec \<lparr> warnings = [] \<rparr>, Some ''bad front matter'')])"
proof -
  let ?opts = "import_md_options\<lparr> o_format := Some ''md'' \<rparr>"
  have lower: "toLowerCase unicode ''md'' = ''md''" "toLowerCase unicode ''docx'' = ''docx''"
    for unicode
    by (simp_all add: toLowerCase_def is_ascii_def toLowerCase_char_def)
  have p: "o_path import_md_options = ''/in/a.md''" "o_path ?opts = ''/in/a.md''"
    "o_path import_docx_options = ''/in/b.docx''" "o_format import_docx_options = None"
    by (simp_all add: import_md_options_def import_docx_options_def no_options_def)
  have a: "fsDriver_exists example_store (o_path import_md_options)"
    by (simp add: p example_store_import_simps)
  have b: "import_options example_store (modules []) import_md_options = Inr ?opts"
    by (simp add: import_options_def import_defaults_def import_format_def import_destination_def
        moduleByFileExtension_def lower builtin_defs import_md_options_def no_options_def
        example_store_import_simps)
  have c: "import_importer (modules []) example_instantiate ?opts = Inr []"
    by (simp add: import_importer_def newModuleByFormat_def findModuleByFormat_def builtin_defs
        import_md_options_def no_options_def example_instantiate_def)
  have d: "i_init example_importer (o_path ?opts) ?opts [] = (None, [''/in/a.md''])"
    by (simp add: example_importer_def p)
  have e: "i_exec example_importer \<lparr> warnings = [] \<rparr> [''/in/a.md'']
             = (Inr \<lparr> warnings = [''1 note skipped''] \<rparr>, [''/in/a.md''])"
    by (simp add: example_importer_def)
  have f: "fsDriver_exists example_store (o_path import_docx_options)"
    by (simp add: p example_store_import_simps)
  have g: "moduleByFileExtension (String_toLowerCase example_store) (modules []) Importer
             (fileExtension example_store (o_path import_docx_options)) = None"
    by (simp add: p example_store_import_simps moduleByFileExtension_def lower builtin_defs)
  note t = import_throws_before_converter_call
  from t [of example_store "modules []" example_instantiate example_importer import_md_options]
    a b c d e
  have r1: "import example_store (modules []) example_instantiate example_importer import_md_options
       = (Inr \<lparr> warnings = [''1 note skipped''] \<rparr>,
          [(Importer_init ''/in/a.md'' ?opts, None), (Importer_exec \<lparr> warnings = [] \<rparr>, None)])"
    by (simp add: p)
  from t [of example_store "modules []" example_instantiate example_importer import_docx_options]
    f g p(4)
  have r2: "import example_store (modules []) example_instantiate example_importer import_docx_options
       = (Inl (Please_specify_import_format ''/in/b.docx''), [])"
    by (simp add: p)
  have d3: "i_init failing_init_importer (o_path ?opts) ?opts [] = (Some ''not a file'', [])"
    by (simp add: failing_init_importer_def)
  have d4: "i_init failing_exec_importer (o_path ?opts) ?opts [] = (None, [''/in/a.md''])"
    by (simp add: failing_exec_importer_def example_importer_def p)
  have e4: "i_exec failing_exec_importer \<lparr> warnings = [] \<rparr> [''/in/a.md'']
             = (Inl ''bad front matter'', [''/in/a.md''])"
    by (simp add: failing_exec_importer_def)
  from t [of example_store "modules []" example_instantiate failing_init_importer import_md_options]
    a b c d3
  have r3: "import example_store (modules []) example_instantiate failing_init_importer import_md_options
       = (Inl (Thrown ''not a file''), [(Importer_init ''/in/a.md'' ?opts, Some ''not a file'')])"
    by (simp add: p)
  from t [of example_store "modules []" example_instantiate failing_exec_importer import_md_options]
    a b c d4 e4
  have r4: "import example_store (modules []) example_instantiate failing_exec_importer import_md_options
       = (Inl (Thrown ''bad front matter''),
          [(Importer_init ''/in/a.md'' ?opts, None),
           (Importer_exec \<lparr> warnings = [] \<rparr>, Some ''bad front matter'')])"
    by (simp add: p)
  from a b c r1 f p(4) g r2 r3 r4 show ?thesis
    by (intro conjI)
qed

end
